theory Spec2Isabelle
  imports Main "HOL-Library.Multiset"
begin

section \<open>JavaScript values, strings and containers\<close>

text \<open>
  The client is JavaScript: a request's fields, an error's properties and the configured
  options are dynamically typed.  The values that reach the modelled code are
  \<open>undefined\<close>, \<open>null\<close>, strings, integers and plain objects.  A config body
  (\<open>content\<close>) and an md5 are a string or \<open>null\<close>: they are \<open>string option\<close>,
  \<open>None\<close> being \<open>null\<close>.  A string is a list of code units below 256.
\<close>

datatype jsval = Undefined | Null | Str string | Num int | Obj "(string \<times> jsval) list"

type_synonym jsobj = "(string \<times> jsval) list"

fun truthy :: "jsval \<Rightarrow> bool" where
  "truthy Undefined = False"
| "truthy Null = False"
| "truthy (Str s) = (s \<noteq> [])"
| "truthy (Num n) = (n \<noteq> 0)"
| "truthy (Obj _) = True"

text \<open>\<open>x || ''\<close> and \<open>if (x)\<close> on a value that is a string or \<open>null\<close>.\<close>

definition truthy_str :: "string option \<Rightarrow> bool" where
  "truthy_str v = (case v of None \<Rightarrow> False | Some x \<Rightarrow> x \<noteq> [])"

definition of_content :: "string option \<Rightarrow> jsval" where
  "of_content v = (case v of None \<Rightarrow> Null | Some x \<Rightarrow> Str x)"

text \<open>An option that is a string when given: \<open>None\<close> is \<open>undefined\<close>.\<close>

definition of_option :: "string option \<Rightarrow> jsval" where
  "of_option v = (case v of None \<Rightarrow> Undefined | Some x \<Rightarrow> Str x)"

definition digit_char :: "nat \<Rightarrow> char" where
  "digit_char n = ''0123456789'' ! n"

fun decimal :: "nat \<Rightarrow> string" where
  "decimal n = (if n < 10 then [digit_char n] else decimal (n div 10) @ [digit_char (n mod 10)])"

declare decimal.simps [simp del]

text \<open>The string a value becomes under \<open>+\<close> with a string, and \<open>String(n)\<close>.\<close>

fun toStr :: "jsval \<Rightarrow> string" where
  "toStr Undefined = ''undefined''"
| "toStr Null = ''null''"
| "toStr (Str s) = s"
| "toStr (Num n) = (if n < 0 then CHR ''-'' # decimal (nat (- n)) else decimal (nat n))"
| "toStr (Obj _) = ''[object Object]''"

text \<open>An element of an array under \<open>join('')\<close>: \<open>null\<close> and \<open>undefined\<close> are empty.\<close>

fun join_elem :: "jsval \<Rightarrow> string" where
  "join_elem Undefined = []"
| "join_elem Null = []"
| "join_elem v = toStr v"

definition join_empty :: "jsval list \<Rightarrow> string" where
  "join_empty xs = concat (map join_elem xs)"

text \<open>\<open>s.split(c)\<close> for a one-character separator.\<close>

fun split_on :: "char \<Rightarrow> string \<Rightarrow> string list" where
  "split_on c [] = [[]]"
| "split_on c (x # xs) =
     (if x = c then [] # split_on c xs
      else (case split_on c xs of [] \<Rightarrow> [[x]] | y # ys \<Rightarrow> (x # y) # ys))"

definition is_space :: "char \<Rightarrow> bool" where
  "is_space c = (c \<in> set [CHR 0x09, CHR 0x0A, CHR 0x0B, CHR 0x0C, CHR 0x0D, CHR 0x20, CHR 0xA0])"

definition trim :: "string \<Rightarrow> string" where
  "trim s = rev (dropWhile is_space (rev (dropWhile is_space s)))"

text \<open>
  A plain object and a \<open>Map\<close> keep their keys in insertion order: association lists.
  Setting a key that is there replaces its value in place; a new key goes last; deleting
  a key leaves no entry for it.
\<close>

fun map_get :: "('k \<times> 'v) list \<Rightarrow> 'k \<Rightarrow> 'v option" where
  "map_get [] k = None"
| "map_get ((k', v) # m) k = (if k' = k then Some v else map_get m k)"

fun map_set :: "('k \<times> 'v) list \<Rightarrow> 'k \<Rightarrow> 'v \<Rightarrow> ('k \<times> 'v) list" where
  "map_set [] k v = [(k, v)]"
| "map_set ((k', v') # m) k v = (if k' = k then (k, v) # m else (k', v') # map_set m k v)"

fun map_delete :: "('k \<times> 'v) list \<Rightarrow> 'k \<Rightarrow> ('k \<times> 'v) list" where
  "map_delete [] k = []"
| "map_delete ((k', v) # m) k = (if k' = k then map_delete m k else (k', v) # map_delete m k)"

text \<open>\<open>Object.assign(target, source)\<close>.\<close>

fun obj_assign :: "jsobj \<Rightarrow> jsobj \<Rightarrow> jsobj" where
  "obj_assign target [] = target"
| "obj_assign target ((k, v) # src) = obj_assign (map_set target k v) src"

text \<open>A property read: a missing property is \<open>undefined\<close>.\<close>

definition get_prop :: "jsobj \<Rightarrow> string \<Rightarrow> jsval" where
  "get_prop obj k = (case map_get obj k of None \<Rightarrow> Undefined | Some v \<Rightarrow> v)"

section \<open>Errors, requests and the world outside\<close>

text \<open>
  An \<open>Error\<close> is its \<open>name\<close> and the properties the code tags it with; the message text
  is left out.
\<close>

record js_error =
  err_name :: string
  err_props :: jsobj

definition new_Error :: "string \<Rightarrow> js_error" where
  "new_Error n = \<lparr>err_name = n, err_props = []\<rparr>"

definition tag :: "string \<Rightarrow> jsval \<Rightarrow> js_error \<Rightarrow> js_error" where
  "tag k v e = e\<lparr>err_props := map_set (err_props e) k v\<rparr>"

text \<open>
  A call that may throw returns a sum, \<open>Inl\<close> the error thrown; \<open>thrown_name\<close> is
  the name of that error, if there is one.
\<close>

definition thrown_name :: "js_error + 'a \<Rightarrow> string option" where
  "thrown_name r = (case r of Inl e \<Rightarrow> Some (err_name e) | Inr _ \<Rightarrow> None)"

text \<open>
  What \<open>httpclient.request(url, options)\<close> is called with, and what it gives: a response
  (status and text body) or a thrown transport error.  The options that are the same in
  every call (\<open>dataType: 'text'\<close>, the TLS settings) are left out.
\<close>

record http_request =
  req_url :: string
  req_method :: string
  req_data :: jsval
  req_headers :: jsobj
  req_timeout :: jsval

datatype http_result = Response int string | Throws js_error

text \<open>
  Everything outside the repository is a parameter.  The library functions are those of
  Node (\<open>path.join\<close>, \<open>crypto\<close>, \<open>JSON\<close>) and of \<open>./utils\<close> and \<open>./const\<close>, which are
  not among the sources.  The world is an oracle indexed by a tick, the number of
  interactions so far: the answer of the HTTP transport to a request, whether a file
  operation throws, the clock and the random source.

  \<open>JSON_parse\<close> reads a server-list snapshot: \<open>None\<close> is a thrown \<open>SyntaxError\<close>.  The
  snapshot is only ever written by the manager itself, as \<open>JSON.stringify\<close> of a list of
  host names, so a text that parses is taken to parse to a list of strings.  A file that
  was replaced from outside by JSON of another shape (a string, an object with a
  \<open>length\<close>) is outside the model.
\<close>

record platform =
  path_join :: "string list \<Rightarrow> string"
  hmac_sha1_base64 :: "string \<Rightarrow> string \<Rightarrow> string"
  JSON_parse :: "string \<Rightarrow> string list option"
  JSON_stringify :: "string list \<Rightarrow> string"
  getMD5String :: "string option \<Rightarrow> string option"
  encodingParams :: "jsval \<Rightarrow> jsval"
  decodeURIComponent :: "string \<Rightarrow> js_error + string"
  CURRENT_UNIT :: string
  VERSION :: string
  http :: "nat \<Rightarrow> http_request \<Rightarrow> http_result"
  fs_error :: "nat \<Rightarrow> js_error option"
  now :: "nat \<Rightarrow> nat"
  rand :: "nat \<Rightarrow> nat"

text \<open>
  Modelled from the spec: \<open>./const\<close> is not among the sources.  The spec gives the wire
  constants: \<open>WORD_SEPARATOR = "\u0002"\<close>, \<open>LINE_SEPARATOR = "\u0001"\<close>, and the HTTP
  statuses 200 (value), 404 (absent) and 409 (conflict).
\<close>

definition WORD_SEPARATOR :: string where
  "WORD_SEPARATOR = [CHR 0x02]"

definition LINE_SEPARATOR :: string where
  "LINE_SEPARATOR = [CHR 0x01]"

definition HTTP_OK :: int where
  "HTTP_OK = 200"

definition HTTP_NOT_FOUND :: int where
  "HTTP_NOT_FOUND = 404"

definition HTTP_CONFLICT :: int where
  "HTTP_CONFLICT = 409"

text \<open>
  The options the three classes read.  \<open>namespace\<close> is a string when it is
  configured, \<open>None\<close> is \<open>undefined\<close>; \<open>nameServerAddr\<close> is the getter's
  value, the endpoint with its port.
\<close>

record options =
  cacheDir :: string
  nameServerAddr :: string
  requestTimeout :: jsval
  unit :: string
  namespace :: "string option"
  accessKey :: jsval
  secretKey :: string
  ssl :: bool

section \<open>The state of a client\<close>

record subscription =
  dataId :: string
  group :: string
  md5 :: "string option"
  content :: "string option"

record server_data =
  hosts :: "string list"
  index :: nat

text \<open>
  A deferred callback: \<open>this.emit(key, content)\<close> and \<open>this.emit('error', err)\<close> under
  \<open>setImmediate\<close>, \<open>listener(item.content)\<close> under \<open>process.nextTick\<close>.  A listener is
  a function, known by its identity.
\<close>

datatype task =
    EmitContent string "string option"
  | EmitError js_error
  | CallListener nat "string option"

text \<open>
  One record holds the snapshot directory, the server list manager and one
  \<open>DiamondEnv\<close>, as the unit client holds references to the other two.
  \<open>snapshotEvents\<close> and \<open>mgrEvents\<close> are the \<open>'error'\<close> events the snapshot and
  the manager have emitted, \<open>sent\<close> the signed requests the unit client has handed to
  the transport, \<open>delivered\<close> the calls of listeners made so far (listener and
  content) and \<open>errorEvents\<close> the client's \<open>'error'\<close> events, all oldest first.
  \<open>coroutines\<close> are the initial syncs \<open>subscribe\<close> has started, by item.
\<close>

record state =
  tick :: nat
  files :: "string \<rightharpoonup> string"
  snapshotEvents :: "js_error list"
  serverListCache :: "(string \<times> server_data option) list"
  mgrEvents :: "js_error list"
  sent :: "http_request list"
  subscriptions :: "(string \<times> subscription) list"
  listeners :: "string \<Rightarrow> nat list"
  currentServer :: "string option"
  nextTicks :: "task list"
  immediates :: "task list"
  coroutines :: "(string \<times> string) list"
  delivered :: "(nat \<times> string option) list"
  errorEvents :: "js_error list"

definition step :: "state \<Rightarrow> state" where
  "step s = s\<lparr>tick := tick s + 1\<rparr>"

section \<open>snapshot.js\<close>

definition getSnapshotFile :: "platform \<Rightarrow> options \<Rightarrow> string \<Rightarrow> string" where
  "getSnapshotFile p opts key = path_join p [cacheDir opts, ''snapshot'', key]"

text \<open>
  \<open>get\<close>: the file's text when it exists, \<open>null\<close> otherwise; a failing read is
  emitted as \<open>SnapshotReadError\<close> and gives \<open>null\<close> too.
\<close>

definition Snapshot_get :: "platform \<Rightarrow> options \<Rightarrow> string \<Rightarrow> state \<Rightarrow> string option \<times> state" where
  "Snapshot_get p opts key s =
     (let filepath = getSnapshotFile p opts key in
      case fs_error p (tick s) of
        None \<Rightarrow> (files s filepath, step s)
      | Some err \<Rightarrow>
          (None, (step s)\<lparr>snapshotEvents :=
             snapshotEvents s @ [err\<lparr>err_name := ''SnapshotReadError''\<rparr>]\<rparr>))"

text \<open>
  \<open>save\<close>: \<open>value = value || ''\<close>, then the directories and the file are written; a
  failure is emitted as \<open>SnapshotWriteError\<close> and nothing is thrown.
\<close>

definition Snapshot_save :: "platform \<Rightarrow> options \<Rightarrow> string \<Rightarrow> string option \<Rightarrow> state \<Rightarrow> state" where
  "Snapshot_save p opts key value s =
     (let filepath = getSnapshotFile p opts key;
          value' = (if truthy_str value then the value else []) in
      case fs_error p (tick s) of
        None \<Rightarrow> (step s)\<lparr>files := (files s)(filepath \<mapsto> value')\<rparr>
      | Some err \<Rightarrow>
          (step s)\<lparr>snapshotEvents := snapshotEvents s @
             [tag ''value'' (Str value') (tag ''key'' (Str key)
                (err\<lparr>err_name := ''SnapshotWriteError''\<rparr>))]\<rparr>)"

definition Snapshot_delete :: "platform \<Rightarrow> options \<Rightarrow> string \<Rightarrow> state \<Rightarrow> state" where
  "Snapshot_delete p opts key s =
     (let filepath = getSnapshotFile p opts key in
      case fs_error p (tick s) of
        None \<Rightarrow> (step s)\<lparr>files := (files s)(filepath := None)\<rparr>
      | Some err \<Rightarrow>
          (step s)\<lparr>snapshotEvents := snapshotEvents s @
             [tag ''key'' (Str key) (err\<lparr>err_name := ''SnapshotDeleteError''\<rparr>)]\<rparr>)"

section \<open>server_list_mgr.js\<close>

text \<open>
  The manager's \<open>_request\<close>, as \<open>_fetchServerList\<close> calls it (a \<open>GET\<close> with a
  timeout and \<open>dataType: 'text'\<close>): a transport error propagates as it is, a status
  other than 200 is thrown as \<open>DiamondServerResponseError\<close>.  The request takes one
  tick.
\<close>

definition mgr_request_of :: "options \<Rightarrow> string \<Rightarrow> http_request" where
  "mgr_request_of opts url =
     \<lparr>req_url = url, req_method = ''GET'', req_data = Undefined,
      req_headers = [], req_timeout = requestTimeout opts\<rparr>"

definition mgr_request ::
  "platform \<Rightarrow> options \<Rightarrow> string \<Rightarrow> state \<Rightarrow> (js_error + string) \<times> state" where
  "mgr_request p opts url s =
     (let req = mgr_request_of opts url;
          s1 = step s in
      case http p (tick s) req of
        Throws err \<Rightarrow> (Inl err, s1)
      | Response status body \<Rightarrow>
          if status \<noteq> 200
          then (Inl (tag ''body'' (Str body) (tag ''params'' (Obj [(''timeout'', requestTimeout opts),
                       (''dataType'', Str ''text'')])
                  (tag ''url'' (Str url) (new_Error ''DiamondServerResponseError'')))), s1)
          else (Inr body, s1))"

definition mgr_formatKey :: "platform \<Rightarrow> string \<Rightarrow> string" where
  "mgr_formatKey p u = path_join p [''server_list'', u]"

definition getRequestUrl :: "platform \<Rightarrow> options \<Rightarrow> string \<Rightarrow> string" where
  "getRequestUrl p opts u =
     (if u = CURRENT_UNIT p
      then ''http://'' @ nameServerAddr opts @ ''/diamond-server/diamond''
      else ''http://'' @ nameServerAddr opts @ ''/diamond-server/diamond-unit-'' @ u @ ''?nofix=1'')"

text \<open>\<open>data.split('\n').map(host => host.trim()).filter(host => !!host)\<close>\<close>

definition parse_hosts :: "string \<Rightarrow> string list" where
  "parse_hosts data = filter (\<lambda>host. host \<noteq> []) (map trim (split_on (CHR 0x0A) data))"

text \<open>
  The end of \<open>_fetchServerList\<close>, after the \<open>try\<close>: \<open>hosts\<close> is \<open>None\<close> while the
  variable is still \<open>undefined\<close>.  \<open>random(n)\<close> of \<open>utility\<close> is an integer in
  \<open>[0, n)\<close>.
\<close>

definition fetch_finish ::
  "platform \<Rightarrow> string \<Rightarrow> string list option \<Rightarrow> state \<Rightarrow> server_data option \<times> state" where
  "fetch_finish p u hs s =
     (case hs of
        None \<Rightarrow> (None, s\<lparr>serverListCache := map_set (serverListCache s) u None\<rparr>)
      | Some h \<Rightarrow>
          if length h = 0
          then (None, s\<lparr>serverListCache := map_set (serverListCache s) u None\<rparr>)
          else (let serverData = \<lparr>hosts = h, index = rand p (tick s) mod length h\<rparr> in
                (Some serverData,
                 (step s)\<lparr>serverListCache := map_set (serverListCache s) u (Some serverData)\<rparr>)))"

text \<open>
  The \<open>catch\<close> of \<open>_fetchServerList\<close>: the error is emitted, the snapshot read; a
  snapshot that does not parse is deleted and reported, and \<open>hosts\<close> keeps the value
  \<open>hs\<close> it had when the error was thrown.
\<close>

definition fetch_catch ::
  "platform \<Rightarrow> options \<Rightarrow> string \<Rightarrow> string list option \<Rightarrow> js_error \<Rightarrow> state
     \<Rightarrow> string list option \<times> state" where
  "fetch_catch p opts u hs err s =
     (let key = mgr_formatKey p u;
          s1 = s\<lparr>mgrEvents := mgrEvents s @ [err]\<rparr>;
          (data, s2) = Snapshot_get p opts key s1 in
      if truthy_str data
      then (case JSON_parse p (the data) of
              Some h \<Rightarrow> (Some h, s2)
            | None \<Rightarrow>
                (let s3 = Snapshot_delete p opts key s2 in
                 (hs, s3\<lparr>mgrEvents := mgrEvents s3 @
                    [tag ''data'' (Str (the data)) (tag ''unit'' (Str u)
                       (new_Error ''ServerListSnapShotJSONParseError''))]\<rparr>)))
      else (hs, s2))"

definition fetchServerList ::
  "platform \<Rightarrow> options \<Rightarrow> string \<Rightarrow> state \<Rightarrow> server_data option \<times> state" where
  "fetchServerList p opts u s =
     (let key = mgr_formatKey p u;
          url = getRequestUrl p opts u;
          (hs, s') =
            (case mgr_request p opts url s of
               (Inl err, s1) \<Rightarrow> fetch_catch p opts u None err s1
             | (Inr data, s1) \<Rightarrow>
                 (let hs = parse_hosts data in
                  if length hs = 0
                  then fetch_catch p opts u (Some hs)
                         (tag ''unit'' (Str u) (new_Error ''DiamondServerHostEmptyError'')) s1
                  else (Some hs, Snapshot_save p opts key (Some (JSON_stringify p hs)) s1)))
      in fetch_finish p u hs s')"

text \<open>
  \<open>getOne\<close>: a unit with no pool in the cache (absent, or \<open>null\<close>) is fetched first.
  The pool handed out is the object the cache holds, so advancing its index is an update
  of the cache entry.  \<open>hosts[index]\<close> out of range is \<open>undefined\<close>, here \<open>None\<close>.
\<close>

definition getOne_choose :: "string \<Rightarrow> server_data \<Rightarrow> state \<Rightarrow> string option \<times> state" where
  "getOne_choose u serverData s =
     (if length (hosts serverData) = 0 then (None, s)
      else (let choosed = (if index serverData < length (hosts serverData)
                           then Some (hosts serverData ! index serverData) else None);
                i = index serverData + 1;
                i' = (if i \<ge> length (hosts serverData) then 0 else i) in
            (choosed,
             s\<lparr>serverListCache := map_set (serverListCache s) u (Some (serverData\<lparr>index := i'\<rparr>))\<rparr>)))"

definition getOne :: "platform \<Rightarrow> options \<Rightarrow> string \<Rightarrow> state \<Rightarrow> string option \<times> state" where
  "getOne p opts u s =
     (case map_get (serverListCache s) u of
        Some (Some serverData) \<Rightarrow> getOne_choose u serverData s
      | _ \<Rightarrow>
          (case fetchServerList p opts u s of
             (None, s') \<Rightarrow> (None, s')
           | (Some serverData, s') \<Rightarrow> getOne_choose u serverData s'))"

text \<open>\<open>getOne\<close> called \<open>n\<close> times in a row: the hosts it returned, and the state.\<close>

fun getOne_times ::
  "platform \<Rightarrow> options \<Rightarrow> string \<Rightarrow> nat \<Rightarrow> state \<Rightarrow> string option list \<times> state" where
  "getOne_times p opts u 0 s = ([], s)"
| "getOne_times p opts u (Suc n) s =
     (let (h, s1) = getOne p opts u s;
          (hs, s2) = getOne_times p opts u n s1
      in (h # hs, s2))"

section \<open>diamond_env.js\<close>

text \<open>\<open>_error\<close>: the error is emitted from a \<open>setImmediate\<close> callback.\<close>

definition env_error :: "js_error \<Rightarrow> state \<Rightarrow> state" where
  "env_error err s = s\<lparr>immediates := immediates s @ [EmitError err]\<rparr>"

definition formatKey :: "options \<Rightarrow> string \<times> string \<Rightarrow> string" where
  "formatKey opts info = fst info @ ''@'' @ snd info @ ''@'' @ unit opts"

text \<open>\<open>_getSnapshotKey(dataId, group)\<close>, as \<open>getConfig\<close> calls it: no tenant is passed.\<close>

definition getSnapshotKey :: "platform \<Rightarrow> options \<Rightarrow> string \<Rightarrow> string \<Rightarrow> string" where
  "getSnapshotKey p opts dataId' group' =
     (let tenant = (if truthy_str (namespace opts) then the (namespace opts) else ''default_tenant'')
      in path_join p [''config'', unit opts, tenant, group', dataId'])"

definition updateCurrentServer :: "platform \<Rightarrow> options \<Rightarrow> state \<Rightarrow> (js_error + unit) \<times> state" where
  "updateCurrentServer p opts s =
     (let (h, s1) = getOne p opts (unit opts) s;
          s2 = s1\<lparr>currentServer := h\<rparr> in
      if \<not> truthy_str h
      then (Inl (tag ''unit'' (Str (unit opts)) (new_Error ''DiamondServerUnavailableError'')), s2)
      else (Inr (), s2))"

text \<open>The \<open>options\<close> argument of \<open>_request\<close>; an \<open>Undefined\<close> timeout is the default.\<close>

record request_options =
  opt_encode :: bool
  opt_method :: string
  opt_data :: jsobj
  opt_timeout :: jsval
  opt_headers :: jsobj

definition signStr :: "jsobj \<Rightarrow> jsval" where
  "signStr data =
     (if truthy (get_prop data ''group'') \<and> truthy (get_prop data ''tenant'')
      then Str (toStr (get_prop data ''tenant'') @ ''+'' @ toStr (get_prop data ''group''))
      else if truthy (get_prop data ''group'') then get_prop data ''group''
      else get_prop data ''tenant'')"

definition request_headers :: "platform \<Rightarrow> options \<Rightarrow> jsobj \<Rightarrow> jsobj \<Rightarrow> string \<Rightarrow> jsobj" where
  "request_headers p opts headers data ts =
     (let signature = hmac_sha1_base64 p (secretKey opts) (toStr (signStr data) @ ''+'' @ ts)
      in obj_assign headers
           [(''Client-Version'', Str (VERSION p)),
            (''Content-Type'', Str ''application/x-www-form-urlencoded; charset=UTF-8''),
            (''Spas-AccessKey'', accessKey opts),
            (''timeStamp'', Str ts),
            (''exConfigInfo'', Str ''true''),
            (''Spas-Signature'', Str signature)])"

definition request_url :: "options \<Rightarrow> string option \<Rightarrow> string \<Rightarrow> string" where
  "request_url opts server path =
     (let host = toStr (of_content server) in
      if ssl opts then ''https://'' @ host @ '':443/diamond-server'' @ path
      else ''http://'' @ host @ '':8080/diamond-server'' @ path)"

text \<open>
  The request \<open>_request\<close> hands to the transport when \<open>server\<close> is the current
  server and \<open>ts\<close> the time stamp.
\<close>

definition build_request ::
  "platform \<Rightarrow> options \<Rightarrow> string \<Rightarrow> request_options \<Rightarrow> string \<Rightarrow> string option
     \<Rightarrow> http_request" where
  "build_request p opts path ro ts server =
     (let data = opt_data ro;
          timeout = (if opt_timeout ro = Undefined then requestTimeout opts else opt_timeout ro);
          url = request_url opts server path;
          headers = request_headers p opts (opt_headers ro) data ts;
          requestData = (if opt_encode ro then encodingParams p (Obj data) else Obj data)
      in \<lparr>req_url = url, req_method = opt_method ro, req_data = requestData,
          req_headers = headers, req_timeout = timeout\<rparr>)"

text \<open>
  \<open>_request\<close> from the URL on, the current server being chosen: the request is built
  and sent, which takes one tick, and the response handled.  An error thrown in the
  \<open>try\<close> (by the transport, or for a status) is tagged in the \<open>catch\<close>, the current
  server is chosen anew, and the error is thrown on; when no server can be chosen, the
  error of \<open>_updateCurrentServer\<close> is thrown in its place.
\<close>

definition response_outcome :: "http_result \<Rightarrow> js_error + string option" where
  "response_outcome res =
     (case res of
        Throws err \<Rightarrow> Inl err
      | Response status resData \<Rightarrow>
          if status = HTTP_OK then Inr (Some resData)
          else if status = HTTP_NOT_FOUND then Inr None
          else if status = HTTP_CONFLICT then Inl (new_Error ''DiamondServerConflictError'')
          else Inl (tag ''body'' (Str resData) (new_Error ''DiamondServerResponseError'')))"

definition tag_request :: "request_options \<Rightarrow> http_request \<Rightarrow> js_error \<Rightarrow> js_error" where
  "tag_request ro req err =
     tag ''headers'' (Obj (req_headers req)) (tag ''data'' (Obj (opt_data ro))
       (tag ''url'' (Str (req_method req @ '' '' @ req_url req)) err))"

definition send_request ::
  "platform \<Rightarrow> options \<Rightarrow> string \<Rightarrow> request_options \<Rightarrow> string \<Rightarrow> state
     \<Rightarrow> (js_error + string option) \<times> state" where
  "send_request p opts path ro ts s =
     (let req = build_request p opts path ro ts (currentServer s);
          s1 = (step s)\<lparr>sent := sent s @ [req]\<rparr>
      in case response_outcome (http p (tick s) req) of
           Inr v \<Rightarrow> (Inr v, s1)
         | Inl err \<Rightarrow>
             (case updateCurrentServer p opts s1 of
                (Inl unavailable, s2) \<Rightarrow> (Inl unavailable, s2)
              | (Inr _, s2) \<Rightarrow> (Inl (tag_request ro req err), s2)))"

text \<open>
  \<open>_request\<close>: the time stamp is read (one tick), a current server is chosen when there
  is none, and the request is sent.
\<close>

definition ensure_server :: "platform \<Rightarrow> options \<Rightarrow> state \<Rightarrow> (js_error + unit) \<times> state" where
  "ensure_server p opts s =
     (if \<not> truthy_str (currentServer s) then updateCurrentServer p opts s else (Inr (), s))"

definition env_request ::
  "platform \<Rightarrow> options \<Rightarrow> string \<Rightarrow> request_options \<Rightarrow> state
     \<Rightarrow> (js_error + string option) \<times> state" where
  "env_request p opts path ro s =
     (let ts = decimal (now p (tick s)) in
      case ensure_server p opts (step s) of
        (Inl unavailable, s1) \<Rightarrow> (Inl unavailable, s1)
      | (Inr _, s1) \<Rightarrow> send_request p opts path ro ts s1)"

definition getConfig_options :: "options \<Rightarrow> string \<Rightarrow> string \<Rightarrow> request_options" where
  "getConfig_options opts dataId' group' =
     \<lparr>opt_encode = False, opt_method = ''GET'',
      opt_data = [(''dataId'', Str dataId'), (''group'', Str group'),
                  (''tenant'', of_option (namespace opts))],
      opt_timeout = Undefined, opt_headers = []\<rparr>"

definition getConfig ::
  "platform \<Rightarrow> options \<Rightarrow> string \<Rightarrow> string \<Rightarrow> state \<Rightarrow> (js_error + string option) \<times> state" where
  "getConfig p opts dataId' group' s =
     (let key = getSnapshotKey p opts dataId' group' in
      case env_request p opts ''/config.co'' (getConfig_options opts dataId' group') s of
        (Inl err, s1) \<Rightarrow>
          (let (cache, s2) = Snapshot_get p opts key s1 in
           if truthy_str cache then (Inr cache, env_error err s2) else (Inl err, s2))
      | (Inr content', s1) \<Rightarrow> (Inr content', Snapshot_save p opts key content' s1))"

text \<open>
  \<open>gather(tasks, 5)\<close>: every \<open>getConfig\<close> is run and its value or its error collected
  (\<open>Inl\<close> is \<open>isError\<close>).  The tasks, which \<open>co-gather\<close> runs five at a time, are run
  here one after the other, in the order of the list: the results come in that order
  either way, but when requests of one batch fail, the servers the other requests of the
  batch go to can differ from those of an interleaved run.
\<close>

fun gather ::
  "platform \<Rightarrow> options \<Rightarrow> (string \<times> string) list \<Rightarrow> state
     \<Rightarrow> (js_error + string option) list \<times> state" where
  "gather p opts [] s = ([], s)"
| "gather p opts (info # list) s =
     (let (r, s1) = getConfig p opts (fst info) (snd info) s;
          (rs, s2) = gather p opts list s1
      in (r # rs, s2))"

text \<open>The body of the loop of \<open>_syncConfigs\<close>, for the entry \<open>info\<close> and its result.\<close>

definition sync_result ::
  "platform \<Rightarrow> options \<Rightarrow> string \<times> string \<Rightarrow> js_error + string option \<Rightarrow> state \<Rightarrow> state" where
  "sync_result p opts info result s =
     (let key = formatKey opts info in
      case map_get (subscriptions s) key of
        None \<Rightarrow> s
      | Some item \<Rightarrow>
          (case result of
             Inl error \<Rightarrow>
               env_error (tag ''group'' (Str (group item)) (tag ''dataId'' (Str (dataId item))
                            (new_Error ''DiamondSyncConfigError''))) s
           | Inr content' \<Rightarrow>
               (let md5' = getMD5String p content' in
                if md5 item \<noteq> md5'
                then s\<lparr>subscriptions :=
                         map_set (subscriptions s) key (item\<lparr>md5 := md5', content := content'\<rparr>),
                       immediates := immediates s @ [EmitContent key content']\<rparr>
                else s)))"

fun sync_results ::
  "platform \<Rightarrow> options \<Rightarrow> (string \<times> string) list \<Rightarrow> (js_error + string option) list
     \<Rightarrow> state \<Rightarrow> state" where
  "sync_results p opts (info # list) (result # results) s =
     sync_results p opts list results (sync_result p opts info result s)"
| "sync_results p opts _ _ s = s"

definition syncConfigs :: "platform \<Rightarrow> options \<Rightarrow> (string \<times> string) list \<Rightarrow> state \<Rightarrow> state" where
  "syncConfigs p opts list s =
     (let (results, s1) = gather p opts list s in sync_results p opts list results s1)"

text \<open>
  The probe of \<open>_checkServerConfigInfo\<close>: what the loop over the subscriptions pushes
  for one of them, and the options \<open>_request\<close> is called with.
\<close>

definition probe_push :: "string option \<Rightarrow> jsval list \<Rightarrow> subscription \<Rightarrow> jsval list" where
  "probe_push tenant probeUpdate item =
     (let probeUpdate1 = probeUpdate @ [Str (dataId item), Str WORD_SEPARATOR];
          probeUpdate2 = probeUpdate1 @ [Str (group item), Str WORD_SEPARATOR] in
      if truthy_str tenant
      then (probeUpdate2 @ [of_content (md5 item), Str WORD_SEPARATOR])
             @ [of_option tenant, Str LINE_SEPARATOR]
      else probeUpdate2 @ [of_content (md5 item), Str LINE_SEPARATOR])"

definition probe_options :: "options \<Rightarrow> state \<Rightarrow> request_options" where
  "probe_options opts s =
     (let tenant = namespace opts;
          probeUpdate = foldl (probe_push tenant) [] (map snd (subscriptions s)) in
      \<lparr>opt_encode = False, opt_method = ''POST'',
       opt_data = [(''Probe-Modify-Request'', Str (join_empty probeUpdate))],
       opt_timeout = Num 40000,
       opt_headers = [(''longPullingTimeout'', Str ''30000'')]\<rparr>)"

text \<open>
  \<open>_parseUpdateDataIdResponse\<close>: \<open>decodeURIComponent\<close> turns \<open>null\<close> into the string
  \<open>null\<close> and may throw.  The text is split at the line separator (code unit 1) and
  each line at the word separator (code unit 2).
\<close>

definition parseUpdateDataIdResponse ::
  "platform \<Rightarrow> string option \<Rightarrow> js_error + (string \<times> string) list" where
  "parseUpdateDataIdResponse p content' =
     (case decodeURIComponent p (toStr (of_content content')) of
        Inl err \<Rightarrow> Inl err
      | Inr decoded \<Rightarrow>
          Inr (concat (map (\<lambda>dataIdAndGroup.
                 if dataIdAndGroup \<noteq> []
                 then (let keyArr = split_on (CHR 0x02) dataIdAndGroup in
                       if length keyArr \<ge> 2 then [(keyArr ! 0, keyArr ! 1)] else [])
                 else [])
               (split_on (CHR 0x01) decoded))))"

definition checkServerConfigInfo :: "platform \<Rightarrow> options \<Rightarrow> state \<Rightarrow> (js_error + unit) \<times> state" where
  "checkServerConfigInfo p opts s =
     (if length (subscriptions s) = 0 then (Inr (), s)
      else case env_request p opts ''/config.co'' (probe_options opts s) s of
             (Inl err, s1) \<Rightarrow> (Inl err, s1)
           | (Inr content', s1) \<Rightarrow>
               (case parseUpdateDataIdResponse p content' of
                  Inl err \<Rightarrow> (Inl err, s1)
                | Inr updateList \<Rightarrow>
                    if length updateList \<noteq> 0 then (Inr (), syncConfigs p opts updateList s1)
                    else (Inr (), s1)))"

text \<open>
  \<open>subscribe\<close>: the listener is added; a new item starts its initial sync, an item that
  has an md5 has its content passed to the new listener from a \<open>process.nextTick\<close>
  callback.  The callback reads \<open>item.content\<close> when it runs; the task holds the
  content read at the call.  The two are the same content as long as no result of a sync
  is stored in the item between the call and the next tick, which is the case whenever
  \<open>subscribe\<close> is called from a callback of its own: the \<open>nextTick\<close> queue runs before
  the client's coroutines continue.
\<close>

definition subscribe :: "options \<Rightarrow> string \<times> string \<Rightarrow> nat \<Rightarrow> state \<Rightarrow> state" where
  "subscribe opts info listener s =
     (let key = formatKey opts info;
          s1 = s\<lparr>listeners := (listeners s)(key := listeners s key @ [listener])\<rparr> in
      case map_get (subscriptions s1) key of
        None \<Rightarrow>
          s1\<lparr>subscriptions := map_set (subscriptions s1) key
                \<lparr>dataId = fst info, group = snd info, md5 = None, content = None\<rparr>,
             coroutines := coroutines s1 @ [info]\<rparr>
      | Some item \<Rightarrow>
          if md5 item \<noteq> None
          then s1\<lparr>nextTicks := nextTicks s1 @ [CallListener listener (content item)]\<rparr>
          else s1)"

text \<open>\<open>removeListener\<close> removes the instance of the listener that was added last.\<close>

definition remove_last :: "'a \<Rightarrow> 'a list \<Rightarrow> 'a list" where
  "remove_last x xs = rev (remove1 x (rev xs))"

definition unSubscribe :: "options \<Rightarrow> string \<times> string \<Rightarrow> nat option \<Rightarrow> state \<Rightarrow> state" where
  "unSubscribe opts info listener s =
     (let key = formatKey opts info;
          s1 = (case listener of
                  Some l \<Rightarrow> s\<lparr>listeners := (listeners s)(key := remove_last l (listeners s key))\<rparr>
                | None \<Rightarrow> s\<lparr>listeners := (listeners s)(key := [])\<rparr>) in
      if length (listeners s1 key) = 0
      then s1\<lparr>subscriptions := map_delete (subscriptions s1) key\<rparr>
      else s1)"

text \<open>
  A deferred callback runs: \<open>emit(key, content)\<close> calls the listeners the key has at
  that moment, in the order they were added.  What a listener does is outside the model.
  All \<open>process.nextTick\<close> callbacks run before the \<open>setImmediate\<close> ones.
\<close>

fun run_task :: "task \<Rightarrow> state \<Rightarrow> state" where
  "run_task (EmitContent key content') s =
     s\<lparr>delivered := delivered s @ map (\<lambda>l. (l, content')) (listeners s key)\<rparr>"
| "run_task (EmitError err) s = s\<lparr>errorEvents := errorEvents s @ [err]\<rparr>"
| "run_task (CallListener l content') s = s\<lparr>delivered := delivered s @ [(l, content')]\<rparr>"

definition run_deferred :: "state \<Rightarrow> state" where
  "run_deferred s =
     fold run_task (nextTicks s @ immediates s) (s\<lparr>nextTicks := [], immediates := []\<rparr>)"



text \<open>The contents queued for emission under a key, oldest first.\<close>

fun emissions :: "string \<Rightarrow> task list \<Rightarrow> string option list" where
  "emissions key [] = []"
| "emissions key (EmitContent k c # ts) = (if k = key then c # emissions key ts else emissions key ts)"
| "emissions key (_ # ts) = emissions key ts"

section \<open>The specification's wording of two wire formats\<close>

text \<open>
  The sign body as the specification words it: \<open>tenant + "+" + group\<close> if both are
  present, else \<open>group\<close> if only the group is present, else \<open>tenant\<close>.  Present is
  truthy; a value is read as the string it becomes under \<open>+\<close>.
\<close>

definition signBody_spec :: "jsobj \<Rightarrow> string" where
  "signBody_spec data =
     (let tenant = get_prop data ''tenant''; group' = get_prop data ''group'' in
      if truthy tenant \<and> truthy group' then toStr tenant @ ''+'' @ toStr group'
      else if truthy group' then toStr group'
      else toStr tenant)"

text \<open>
  The probe body as the specification words it: for each subscription, in order,
  \<open>dataId\<close>, \<open>WORD_SEP\<close>, \<open>group\<close>, \<open>WORD_SEP\<close>, then \<open>md5\<close>, \<open>WORD_SEP\<close>,
  \<open>tenant\<close>, \<open>LINE_SEP\<close> if a tenant is present, else \<open>md5\<close>, \<open>LINE_SEP\<close>.  An
  md5 that is still \<open>null\<close> is written as the empty text.
\<close>

definition md5_text :: "subscription \<Rightarrow> string" where
  "md5_text item = (case md5 item of None \<Rightarrow> [] | Some m \<Rightarrow> m)"

definition probe_entry_spec :: "string option \<Rightarrow> subscription \<Rightarrow> string" where
  "probe_entry_spec tenant item =
     dataId item @ WORD_SEPARATOR @ group item @ WORD_SEPARATOR @
       (if truthy_str tenant
        then md5_text item @ WORD_SEPARATOR @ the tenant @ LINE_SEPARATOR
        else md5_text item @ LINE_SEPARATOR)"

definition probe_body_spec :: "string option \<Rightarrow> subscription list \<Rightarrow> string" where
  "probe_body_spec tenant subs = concat (map (probe_entry_spec tenant) subs)"

section \<open>Relations between a state and a later one\<close>

text \<open>
  Two relations between a state and a later one, for stating what a function leaves as
  it was: the whole of the unit client's own part, and that part but for the requests
  sent and the \<open>setImmediate\<close> queue.
\<close>

definition same_client :: "state \<Rightarrow> state \<Rightarrow> bool" where
  "same_client s s' =
     (subscriptions s' = subscriptions s \<and> listeners s' = listeners s \<and>
      immediates s' = immediates s \<and> nextTicks s' = nextTicks s \<and> sent s' = sent s \<and>
      delivered s' = delivered s \<and> errorEvents s' = errorEvents s \<and>
      coroutines s' = coroutines s)"

definition same_subs :: "state \<Rightarrow> state \<Rightarrow> bool" where
  "same_subs s s' =
     (subscriptions s' = subscriptions s \<and> listeners s' = listeners s \<and>
      nextTicks s' = nextTicks s \<and> delivered s' = delivered s \<and>
      errorEvents s' = errorEvents s \<and> coroutines s' = coroutines s)"

section \<open>A concrete platform, for running the model\<close>

text \<open>
  Stand-ins for the library functions and a world in which every \<open>GET\<close> is answered
  with the body \<open>v1\<close>, every other request with an empty body, and no file operation
  fails.  \<open>init_state\<close> is the state of freshly constructed objects, \<open>pool_state\<close>
  has a pool of three hosts for the current unit, \<open>ready_state\<close> has chosen its
  current server, and \<open>subscribed_state\<close> has one listener on \<open>(d, g)\<close>.  They serve
  to evaluate the model on concrete inputs.  The stand-in for \<open>JSON.parse\<close> reads a
  bracketed, comma-separated list and throws on any other text.
\<close>

fun join_slash :: "string list \<Rightarrow> string" where
  "join_slash [] = []"
| "join_slash [x] = x"
| "join_slash (x # xs) = x @ ''/'' @ join_slash xs"

definition demo_platform :: platform where
  "demo_platform =
     \<lparr>path_join = join_slash,
      hmac_sha1_base64 = (\<lambda>k m. ''sig('' @ k @ '','' @ m @ '')''),
      JSON_parse = (\<lambda>t. if t = [] then None
                         else if hd t = CHR ''[''
                         then Some (filter (\<lambda>h. h \<noteq> []) (split_on (CHR '','') (butlast (tl t))))
                         else None),
      JSON_stringify = (\<lambda>hs. ''['' @ concat (map (\<lambda>h. h @ '','') hs) @ '']''),
      getMD5String = (\<lambda>c. case c of None \<Rightarrow> Some [] | Some x \<Rightarrow> Some (''md5-'' @ x)),
      encodingParams = (\<lambda>d. d),
      decodeURIComponent = Inr,
      CURRENT_UNIT = ''CURRENT_UNIT'',
      VERSION = ''1.0.0'',
      http = (\<lambda>t req. if req_method req = ''GET'' then Response 200 ''v1'' else Response 200 []),
      fs_error = (\<lambda>t. None),
      now = (\<lambda>t. 1500000000000 + t),
      rand = (\<lambda>t. t)\<rparr>"

definition demo_options :: options where
  "demo_options =
     \<lparr>cacheDir = ''/cache'', nameServerAddr = ''acm.aliyun.com:8080'',
      requestTimeout = Num 5000, unit = ''CURRENT_UNIT'', namespace = Some ''tenant1'',
      accessKey = Str ''ak'', secretKey = ''sk'', ssl = True\<rparr>"

definition init_state :: state where
  "init_state =
     \<lparr>tick = 0, files = Map.empty, snapshotEvents = [], serverListCache = [],
      mgrEvents = [], sent = [], subscriptions = [], listeners = (\<lambda>key. []),
      currentServer = None, nextTicks = [], immediates = [], coroutines = [],
      delivered = [], errorEvents = []\<rparr>"

definition pool_state :: state where
  "pool_state = init_state\<lparr>serverListCache :=
     [(''CURRENT_UNIT'', Some \<lparr>hosts = [''h1'', ''h2'', ''h3''], index = 1\<rparr>)]\<rparr>"

text \<open>
  Other worlds: every request answered with 404; the transport failing on every
  request; every request answered with status 500; every request answered with a blank
  body; the first request answered with 404 and the transport failing from then on.
\<close>

definition absent_platform :: platform where
  "absent_platform = demo_platform\<lparr>http := (\<lambda>t req. Response 404 [])\<rparr>"

definition down_platform :: platform where
  "down_platform = demo_platform\<lparr>http := (\<lambda>t req. Throws (new_Error ''ConnectionTimeoutError''))\<rparr>"

definition error_platform :: platform where
  "error_platform = demo_platform\<lparr>http := (\<lambda>t req. Response 500 ''busy'')\<rparr>"

definition blank_platform :: platform where
  "blank_platform = demo_platform\<lparr>http := (\<lambda>t req. Response 200 [CHR 0x20, CHR 0x0A, CHR 0x0A])\<rparr>"

definition flaky_platform :: platform where
  "flaky_platform = demo_platform\<lparr>http :=
     (\<lambda>t req. if t \<le> 1 then Response 404 [] else Throws (new_Error ''ConnectionTimeoutError''))\<rparr>"

definition ready_state :: state where
  "ready_state = pool_state\<lparr>currentServer := Some ''h1''\<rparr>"

text \<open>A state whose current server is chosen while the cache holds no pool.\<close>

definition lost_state :: state where
  "lost_state = init_state\<lparr>currentServer := Some ''h1''\<rparr>"

text \<open>The snapshot file of the config \<open>(d, g)\<close>, and a state that holds a snapshot of it.\<close>

definition demo_file :: string where
  "demo_file = getSnapshotFile demo_platform demo_options
     (getSnapshotKey demo_platform demo_options ''d'' ''g'')"

definition cached_state :: state where
  "cached_state = ready_state\<lparr>files := [demo_file \<mapsto> ''v_old'']\<rparr>"


definition subscribed_state :: state where
  "subscribed_state = subscribe demo_options (''d'', ''g'') 1 ready_state"


text \<open>
  The subscription has seen the content \<open>v1\<close> and its listener has been called; and
  states whose server-list snapshot for the current unit is a list of two hosts, is
  empty, and is not JSON.
\<close>

definition synced_state :: state where
  "synced_state =
     run_deferred (sync_result demo_platform demo_options (''d'', ''g'') (Inr (Some ''v1''))
       subscribed_state)"

definition snapshot_state :: state where
  "snapshot_state = init_state\<lparr>files :=
     [getSnapshotFile demo_platform demo_options (mgr_formatKey demo_platform ''CURRENT_UNIT'')
        \<mapsto> ''[h1,h2,]'']\<rparr>"

definition empty_snapshot_state :: state where
  "empty_snapshot_state = init_state\<lparr>files :=
     [getSnapshotFile demo_platform demo_options (mgr_formatKey demo_platform ''CURRENT_UNIT'')
        \<mapsto> []]\<rparr>"

definition corrupt_state :: state where
  "corrupt_state = init_state\<lparr>files :=
     [getSnapshotFile demo_platform demo_options (mgr_formatKey demo_platform ''CURRENT_UNIT'')
        \<mapsto> ''not json'']\<rparr>"

section \<open>Properties of the containers\<close>

lemma map_get_map_set_same: "map_get (map_set m k v) k = Some v"
  by (induction m) auto

lemma map_get_map_set: "map_get (map_set m k v) k' = (if k' = k then Some v else map_get m k')"
  by (induction m) auto

lemma map_set_map_set_same: "map_set (map_set m k v) k v' = map_set m k v'"
  by (induction m) auto

lemma map_set_idem: "map_get m k = Some v \<Longrightarrow> map_set m k v = m"
  by (induction m) (auto split: if_splits)

lemma map_get_map_delete: "map_get (map_delete m k) k = None"
  by (induction m) auto

lemma emissions_append: "emissions key (xs @ ys) = emissions key xs @ emissions key ys"
  by (induction key xs rule: emissions.induct) auto

section \<open>What the functions leave unchanged\<close>

lemma same_client_refl: "same_client s s"
  by (simp add: same_client_def)

lemma same_client_trans: "same_client s s1 \<Longrightarrow> same_client s1 s2 \<Longrightarrow> same_client s s2"
  by (simp add: same_client_def)

lemma same_client_step: "same_client s (step s)"
  by (simp add: same_client_def step_def)

lemma same_client_Snapshot_get: "same_client s (snd (Snapshot_get p opts key s))"
  by (simp add: same_client_def Snapshot_get_def step_def Let_def split: option.splits)

lemma same_client_Snapshot_save: "same_client s (Snapshot_save p opts key v s)"
  by (simp add: same_client_def Snapshot_save_def step_def Let_def split: option.splits)

lemma same_client_Snapshot_delete: "same_client s (Snapshot_delete p opts key s)"
  by (simp add: same_client_def Snapshot_delete_def step_def Let_def split: option.splits)

lemma same_client_mgr_request: "same_client s (snd (mgr_request p opts url s))"
  by (simp add: same_client_def mgr_request_def step_def Let_def split: http_result.splits)

lemma same_client_fetch_finish: "same_client s (snd (fetch_finish p u hs s))"
  by (simp add: same_client_def fetch_finish_def step_def Let_def split: option.splits)

lemma same_client_fetch_catch: "same_client s (snd (fetch_catch p opts u hs err s))"
proof -
  let ?s1 = "s\<lparr>mgrEvents := mgrEvents s @ [err]\<rparr>"
  have a: "same_client s ?s1" by (simp add: same_client_def)
  have b: "same_client ?s1 (snd (Snapshot_get p opts (mgr_formatKey p u) ?s1))"
    by (rule same_client_Snapshot_get)
  obtain data s2 where g: "Snapshot_get p opts (mgr_formatKey p u) ?s1 = (data, s2)"
    by (cases "Snapshot_get p opts (mgr_formatKey p u) ?s1")
  have c: "same_client s s2" using a b g by (auto intro: same_client_trans)
  have d: "same_client s2 (Snapshot_delete p opts (mgr_formatKey p u) s2)"
    by (rule same_client_Snapshot_delete)
  show ?thesis
    using c d g
    by (auto simp: fetch_catch_def Let_def same_client_def split: option.splits)
qed

lemma same_client_fetchServerList: "same_client s (snd (fetchServerList p opts u s))"
proof -
  obtain r s1 where m: "mgr_request p opts (getRequestUrl p opts u) s = (r, s1)"
    by (cases "mgr_request p opts (getRequestUrl p opts u) s")
  have a: "same_client s s1" using same_client_mgr_request [of s p opts "getRequestUrl p opts u"] m by simp
  have fin: "same_client s (snd (fetch_finish p u hs s'))" if "same_client s s'" for hs s'
    using that same_client_fetch_finish [of s' p u hs] by (rule same_client_trans)
  have cat: "same_client s (snd (fetch_catch p opts u hs e s1))" for hs e
    using a same_client_fetch_catch [of s1 p opts u hs e] by (rule same_client_trans)
  have sav: "same_client s (Snapshot_save p opts k v s1)" for k v
    using a same_client_Snapshot_save [of s1 p opts k v] by (rule same_client_trans)
  show ?thesis
    unfolding fetchServerList_def Let_def m
    by (cases r) (auto simp: split_beta intro!: fin cat sav)
qed

lemma same_client_getOne_choose: "same_client s (snd (getOne_choose u sd s))"
  by (simp add: same_client_def getOne_choose_def Let_def)

lemma same_client_getOne: "same_client s (snd (getOne p opts u s))"
proof -
  have f: "same_client s (snd (fetchServerList p opts u s))" by (rule same_client_fetchServerList)
  have "same_client s (snd (getOne_choose u sd s'))" if "same_client s s'" for sd s'
    using that same_client_getOne_choose [of s' u sd] by (rule same_client_trans)
  then show ?thesis
    using f by (auto simp: getOne_def same_client_refl split: option.splits prod.splits)
qed

lemma same_client_updateCurrentServer: "same_client s (snd (updateCurrentServer p opts s))"
proof -
  obtain h s1 where g: "getOne p opts (unit opts) s = (h, s1)" by (cases "getOne p opts (unit opts) s")
  have "same_client s s1" using same_client_getOne [of s p opts "unit opts"] g by simp
  then show ?thesis
    by (simp add: updateCurrentServer_def g Let_def same_client_def)
qed

lemma same_client_ensure_server: "same_client s (snd (ensure_server p opts s))"
  by (simp add: ensure_server_def same_client_refl same_client_updateCurrentServer)

lemma same_client_subs: "same_client s s' \<Longrightarrow> same_subs s s'"
  by (simp add: same_client_def same_subs_def)

lemma same_subs_refl: "same_subs s s"
  by (simp add: same_subs_def)

lemma same_subs_trans: "same_subs s s1 \<Longrightarrow> same_subs s1 s2 \<Longrightarrow> same_subs s s2"
  by (simp add: same_subs_def)

lemma send_request_frame:
  "same_subs s (snd (send_request p opts path ro ts s))
   \<and> immediates (snd (send_request p opts path ro ts s)) = immediates s
   \<and> sent (snd (send_request p opts path ro ts s)) =
       sent s @ [build_request p opts path ro ts (currentServer s)]"
proof -
  let ?req = "build_request p opts path ro ts (currentServer s)"
  let ?s1 = "(step s)\<lparr>sent := sent s @ [?req]\<rparr>"
  have a: "same_subs s ?s1 \<and> immediates ?s1 = immediates s \<and> sent ?s1 = sent s @ [?req]"
    by (simp add: same_subs_def step_def)
  have b: "same_client ?s1 (snd (updateCurrentServer p opts ?s1))"
    by (rule same_client_updateCurrentServer)
  have c: "same_subs s s2 \<and> immediates s2 = immediates s \<and> sent s2 = sent s @ [?req]"
    if "same_client ?s1 s2" for s2
    using a that by (simp add: same_client_def same_subs_def)
  show ?thesis
    unfolding send_request_def Let_def
    using a c [OF b]
    by (auto split: sum.splits prod.splits)
qed

lemma env_request_frame:
  "same_subs s (snd (env_request p opts path ro s))
   \<and> immediates (snd (env_request p opts path ro s)) = immediates s"
proof -
  obtain r s1 where e: "ensure_server p opts (step s) = (r, s1)"
    by (cases "ensure_server p opts (step s)")
  have "same_client (step s) s1"
    using same_client_ensure_server [of "step s" p opts] e by simp
  then have a: "same_client s s1"
    using same_client_step by (rule same_client_trans [rotated])
  then have b: "same_subs s s1 \<and> immediates s1 = immediates s"
    by (simp add: same_client_def same_subs_def)
  have c: "same_subs s1 (snd (send_request p opts path ro ts s1))
        \<and> immediates (snd (send_request p opts path ro ts s1)) = immediates s1" for ts
    using send_request_frame [of s1 p opts path ro ts] by simp
  show ?thesis
    unfolding env_request_def Let_def e
    using b c by (cases r) (auto intro: same_subs_trans)
qed

lemma env_request_sent:
  "ensure_server p opts (step s) = (r, s1) \<Longrightarrow>
   sent (snd (env_request p opts path ro s)) =
     (case r of Inl _ \<Rightarrow> sent s
      | Inr _ \<Rightarrow> sent s @ [build_request p opts path ro (decimal (now p (tick s))) (currentServer s1)])"
proof -
  assume e: "ensure_server p opts (step s) = (r, s1)"
  have "same_client (step s) s1"
    using same_client_ensure_server [of "step s" p opts] e by simp
  then have a: "sent s1 = sent s"
    by (simp add: same_client_def step_def)
  show ?thesis
    unfolding env_request_def Let_def e
    using a send_request_frame [of s1 p opts path ro "decimal (now p (tick s))"]
    by (cases r) auto
qed

lemma getConfig_frame:
  "same_subs s (snd (getConfig p opts d g s))
   \<and> emissions key (immediates (snd (getConfig p opts d g s))) = emissions key (immediates s)"
proof -
  let ?k = "getSnapshotKey p opts d g"
  obtain r s1 where e: "env_request p opts ''/config.co'' (getConfig_options opts d g) s = (r, s1)"
    by (cases "env_request p opts ''/config.co'' (getConfig_options opts d g) s")
  have a: "same_subs s s1 \<and> immediates s1 = immediates s"
    using env_request_frame [of s p opts "''/config.co''" "getConfig_options opts d g"] e by simp
  obtain cache s2 where g: "Snapshot_get p opts ?k s1 = (cache, s2)"
    by (cases "Snapshot_get p opts ?k s1")
  have "same_client s1 s2" using same_client_Snapshot_get [of s1 p opts ?k] g by simp
  then have b: "same_subs s s2 \<and> immediates s2 = immediates s"
    using a by (simp add: same_client_def same_subs_def)
  have "same_client s1 (Snapshot_save p opts ?k v s1)" for v
    by (rule same_client_Snapshot_save)
  then have c: "same_subs s (Snapshot_save p opts ?k v s1)
      \<and> immediates (Snapshot_save p opts ?k v s1) = immediates s" for v
    using a by (simp add: same_client_def same_subs_def)
  show ?thesis
    unfolding getConfig_def Let_def e
    using b c g
    by (cases r) (auto simp: env_error_def same_subs_def emissions_append)
qed


section \<open>Running the deferred callbacks\<close>





section \<open>How the calls run\<close>

lemma Snapshot_get_ok:
  "fs_error p (tick s) = None \<Longrightarrow>
   Snapshot_get p opts key s = (files s (getSnapshotFile p opts key), step s)"
  by (simp add: Snapshot_get_def)

lemma Snapshot_get_failed:
  "fs_error p (tick s) = Some e \<Longrightarrow> fst (Snapshot_get p opts key s) = None"
  by (simp add: Snapshot_get_def)

lemma Snapshot_get_value:
  "fst (Snapshot_get p opts key s) =
     (if fs_error p (tick s) = None then files s (getSnapshotFile p opts key) else None)"
  by (simp add: Snapshot_get_def split: option.splits)

lemma Snapshot_save_files:
  "files (Snapshot_save p opts key v s) =
     (if fs_error p (tick s) = None
      then (files s)(getSnapshotFile p opts key \<mapsto> (if truthy_str v then the v else []))
      else files s)"
  by (simp add: Snapshot_save_def step_def Let_def split: option.splits)

lemma Snapshot_delete_files:
  "files (Snapshot_delete p opts key s) =
     (if fs_error p (tick s) = None then (files s)(getSnapshotFile p opts key := None) else files s)"
  by (simp add: Snapshot_delete_def step_def Let_def split: option.splits)

lemma getOne_cached:
  assumes "map_get (serverListCache s) u = Some (Some sd)" "index sd < length (hosts sd)"
  shows "getOne p opts u s =
           (Some (hosts sd ! index sd),
            s\<lparr>serverListCache := map_set (serverListCache s) u
                 (Some (sd\<lparr>index := Suc (index sd) mod length (hosts sd)\<rparr>))\<rparr>)"
proof -
  have "Suc (index sd) mod length (hosts sd) =
        (if length (hosts sd) \<le> index sd + 1 then 0 else index sd + 1)"
    using assms(2) by (auto simp: mod_Suc le_Suc_eq)
  moreover have "hosts sd \<noteq> []" using assms(2) by auto
  ultimately show ?thesis using assms
    by (simp add: getOne_def getOne_choose_def Let_def)
qed

lemma env_request_sends:
  "ensure_server p opts (step s) = (Inr (), s1) \<Longrightarrow>
   env_request p opts path ro s = send_request p opts path ro (decimal (now p (tick s))) s1"
  by (simp add: env_request_def)

lemma send_request_answer:
  "response_outcome (http p (tick s) (build_request p opts path ro ts (currentServer s))) = Inr v \<Longrightarrow>
   send_request p opts path ro ts s =
     (Inr v, (step s)\<lparr>sent := sent s @ [build_request p opts path ro ts (currentServer s)]\<rparr>)"
  by (simp add: send_request_def)

lemma send_request_thrown:
  assumes "response_outcome (http p (tick s) (build_request p opts path ro ts (currentServer s))) = Inl err"
    and "getOne p opts (unit opts)
           ((step s)\<lparr>sent := sent s @ [build_request p opts path ro ts (currentServer s)]\<rparr>) = (h, s2)"
  shows "send_request p opts path ro ts s =
           (if truthy_str h
            then Inl (tag_request ro (build_request p opts path ro ts (currentServer s)) err)
            else Inl (tag ''unit'' (Str (unit opts)) (new_Error ''DiamondServerUnavailableError'')),
            s2\<lparr>currentServer := h\<rparr>)"
  using assms by (simp add: send_request_def updateCurrentServer_def Let_def)

lemma tag_request_props:
  "err_name (tag_request ro req e) = err_name e
   \<and> get_prop (err_props (tag_request ro req e)) ''url'' = Str (req_method req @ '' '' @ req_url req)
   \<and> get_prop (err_props (tag_request ro req e)) ''data'' = Obj (opt_data ro)
   \<and> get_prop (err_props (tag_request ro req e)) ''headers'' = Obj (req_headers req)"
  by (simp add: tag_request_def tag_def get_prop_def map_get_map_set)



lemma sync_result_absent:
  assumes "map_get (subscriptions t) key = None"
  shows "map_get (subscriptions (sync_result p opts info r t)) key = None
       \<and> emissions key (immediates (sync_result p opts info r t)) = emissions key (immediates t)
       \<and> listeners (sync_result p opts info r t) = listeners t"
proof (cases "formatKey opts info = key")
  case True
  then show ?thesis using assms by (simp add: sync_result_def)
next
  case False
  then show ?thesis
    using assms
    by (auto simp: sync_result_def env_error_def Let_def map_get_map_set emissions_append
        split: option.splits sum.splits)
qed

lemma sync_results_absent:
  "map_get (subscriptions t) key = None \<Longrightarrow>
   map_get (subscriptions (sync_results p opts list results t)) key = None
   \<and> emissions key (immediates (sync_results p opts list results t)) = emissions key (immediates t)
   \<and> listeners (sync_results p opts list results t) = listeners t"
proof (induction p opts list results t rule: sync_results.induct)
  case (1 p opts info list result results s)
  from sync_result_absent [OF "1.prems", of p opts info result] "1.IH"
  show ?case by simp
qed simp_all

lemma gather_frame:
  "same_subs s (snd (gather p opts list s))
   \<and> emissions key (immediates (snd (gather p opts list s))) = emissions key (immediates s)"
proof (induction list arbitrary: s)
  case Nil
  then show ?case by (simp add: same_subs_refl)
next
  case (Cons info list)
  let ?s1 = "snd (getConfig p opts (fst info) (snd info) s)"
  have a: "same_subs s ?s1 \<and> emissions key (immediates ?s1) = emissions key (immediates s)"
    by (rule getConfig_frame)
  have b: "same_subs ?s1 (snd (gather p opts list ?s1))
      \<and> emissions key (immediates (snd (gather p opts list ?s1))) = emissions key (immediates ?s1)"
    by (rule Cons.IH)
  show ?case
    using a b by (auto simp: split_beta Let_def intro: same_subs_trans)
qed

lemma syncConfigs_absent:
  assumes "map_get (subscriptions t) key = None"
  shows "map_get (subscriptions (syncConfigs p opts list t)) key = None
       \<and> emissions key (immediates (syncConfigs p opts list t)) = emissions key (immediates t)
       \<and> listeners (syncConfigs p opts list t) = listeners t"
proof -
  let ?t1 = "snd (gather p opts list t)"
  have g: "same_subs t ?t1 \<and> emissions key (immediates ?t1) = emissions key (immediates t)"
    by (rule gather_frame)
  then have "map_get (subscriptions ?t1) key = None"
    using assms by (simp add: same_subs_def)
  from sync_results_absent [OF this, of p opts list "fst (gather p opts list t)"] g
  show ?thesis
    by (simp add: syncConfigs_def split_beta same_subs_def)
qed

lemma checkServerConfigInfo_absent:
  assumes "map_get (subscriptions t) key = None"
  shows "map_get (subscriptions (snd (checkServerConfigInfo p opts t))) key = None
       \<and> emissions key (immediates (snd (checkServerConfigInfo p opts t))) = emissions key (immediates t)
       \<and> listeners (snd (checkServerConfigInfo p opts t)) = listeners t"
proof -
  let ?r = "env_request p opts ''/config.co'' (probe_options opts t) t"
  have fr: "same_subs t (snd ?r) \<and> immediates (snd ?r) = immediates t"
    by (rule env_request_frame)
  then have ab: "map_get (subscriptions (snd ?r)) key = None"
    using assms by (simp add: same_subs_def)
  have sy: "map_get (subscriptions (syncConfigs p opts l (snd ?r))) key = None
       \<and> emissions key (immediates (syncConfigs p opts l (snd ?r))) = emissions key (immediates t)
       \<and> listeners (syncConfigs p opts l (snd ?r)) = listeners t" for l
    using syncConfigs_absent [OF ab, of p opts l] fr by (simp add: same_subs_def)
  show ?thesis
    using assms fr ab sy
    by (cases ?r) (auto simp: checkServerConfigInfo_def same_subs_def split: sum.splits)
qed







lemma getConfig_sent: "\<exists>more. sent (snd (getConfig p opts d g s)) = sent s @ more"
proof -
  let ?k = "getSnapshotKey p opts d g"
  let ?r = "env_request p opts ''/config.co'' (getConfig_options opts d g) s"
  obtain r s0 where e: "ensure_server p opts (step s) = (r, s0)"
    by (cases "ensure_server p opts (step s)")
  have a: "\<exists>more. sent (snd ?r) = sent s @ more"
    using env_request_sent [OF e, of "''/config.co''" "getConfig_options opts d g"]
    by (cases r) auto
  have g: "sent (snd (Snapshot_get p opts ?k s')) = sent s'" for s'
    using same_client_Snapshot_get [of s' p opts ?k] by (simp add: same_client_def)
  have v: "sent (Snapshot_save p opts ?k c s') = sent s'" for s' c
    using same_client_Snapshot_save [of s' p opts ?k c] by (simp add: same_client_def)
  show ?thesis
    using a
    by (cases ?r; cases "fst ?r")
       (auto simp: getConfig_def Let_def split_beta g v env_error_def)
qed

lemma sync_result_sent: "sent (sync_result p opts info r s) = sent s"
  by (simp add: sync_result_def env_error_def Let_def split: option.splits sum.splits)

lemma sync_results_sent: "sent (sync_results p opts list results s) = sent s"
  by (induction p opts list results s rule: sync_results.induct) (simp_all add: sync_result_sent)

lemma gather_sent: "\<exists>more. sent (snd (gather p opts list s)) = sent s @ more"
proof (induction list arbitrary: s)
  case Nil
  then show ?case by simp
next
  case (Cons info list)
  obtain m1 where a: "sent (snd (getConfig p opts (fst info) (snd info) s)) = sent s @ m1"
    using getConfig_sent by blast
  obtain m2 where b: "sent (snd (gather p opts list (snd (getConfig p opts (fst info) (snd info) s))))
      = sent (snd (getConfig p opts (fst info) (snd info) s)) @ m2"
    using Cons.IH by blast
  show ?case
    using a b by (simp add: split_beta Let_def)
qed

lemma syncConfigs_sent: "\<exists>more. sent (syncConfigs p opts list s) = sent s @ more"
  using gather_sent [of p opts list s]
  by (simp add: syncConfigs_def split_beta sync_results_sent)

section \<open>The concrete worlds and states\<close>

lemma decimal_demo: "decimal 1500000000000 = ''1500000000000''"
  by (simp add: decimal.simps digit_char_def)

lemma demo_unit: "unit demo_options = ''CURRENT_UNIT''"
  by (simp add: demo_options_def)

lemma demo_key: "formatKey demo_options (''d'', ''g'') = ''d@g@CURRENT_UNIT''"
  by (simp add: formatKey_def demo_options_def)

lemma demo_file_eq: "demo_file = ''/cache/snapshot/config/CURRENT_UNIT/tenant1/g/d''"
  by (simp add: demo_file_def getSnapshotFile_def getSnapshotKey_def demo_platform_def
      demo_options_def truthy_str_def)

lemma other_platform_files:
  "getSnapshotFile absent_platform = getSnapshotFile demo_platform"
  "getSnapshotFile down_platform = getSnapshotFile demo_platform"
  "getSnapshotFile flaky_platform = getSnapshotFile demo_platform"
  "getSnapshotKey absent_platform = getSnapshotKey demo_platform"
  "getSnapshotKey down_platform = getSnapshotKey demo_platform"
  "getSnapshotKey flaky_platform = getSnapshotKey demo_platform"
  by (simp_all add: fun_eq_iff getSnapshotFile_def getSnapshotKey_def absent_platform_def
      down_platform_def flaky_platform_def)

lemma ready_state_fields:
  "currentServer ready_state = Some ''h1''" "tick ready_state = 0" "files ready_state = Map.empty"
  "immediates ready_state = []"
  "serverListCache ready_state = [(''CURRENT_UNIT'', Some \<lparr>hosts = [''h1'', ''h2'', ''h3''], index = 1\<rparr>)]"
  by (simp_all add: ready_state_def pool_state_def init_state_def)

lemma subscribed_state_eq:
  "subscribed_state = ready_state
     \<lparr>listeners := (\<lambda>key. [])(''d@g@CURRENT_UNIT'' := [1]),
      subscriptions := [(''d@g@CURRENT_UNIT'', \<lparr>dataId = ''d'', group = ''g'', md5 = None, content = None\<rparr>)],
      coroutines := [(''d'', ''g'')]\<rparr>"
  by (simp add: subscribed_state_def subscribe_def formatKey_def demo_options_def
      ready_state_def pool_state_def init_state_def Let_def)

lemma ready_ensure_server:
  "currentServer s = Some h \<Longrightarrow> h \<noteq> [] \<Longrightarrow> ensure_server p opts s = (Inr (), s)"
  by (simp add: ensure_server_def truthy_str_def)

lemma pool_getOne:
  assumes "serverListCache s = [(''CURRENT_UNIT'', Some \<lparr>hosts = [''h1'', ''h2'', ''h3''], index = 1\<rparr>)]"
  shows "getOne p demo_options ''CURRENT_UNIT'' s =
           (Some ''h2'', s\<lparr>serverListCache :=
              [(''CURRENT_UNIT'', Some \<lparr>hosts = [''h1'', ''h2'', ''h3''], index = 2\<rparr>)]\<rparr>)"
proof -
  have "map_get (serverListCache s) ''CURRENT_UNIT'' =
      Some (Some \<lparr>hosts = [''h1'', ''h2'', ''h3''], index = 1\<rparr>)"
    by (simp add: assms)
  from getOne_cached [OF this, of p demo_options] show ?thesis
    by (simp add: assms)
qed

lemma lost_getOne:
  assumes "serverListCache s = []" and "files s = Map.empty"
  shows "fst (getOne down_platform demo_options ''CURRENT_UNIT'' s) = None"
proof -
  have h: "http down_platform t r = Throws (new_Error ''ConnectionTimeoutError'')" for t r
    by (simp add: down_platform_def)
  have f: "fs_error down_platform t = None" for t
    by (simp add: down_platform_def demo_platform_def)
  have m: "fst (mgr_request down_platform demo_options url s) = Inl (new_Error ''ConnectionTimeoutError'')"
      "files (snd (mgr_request down_platform demo_options url s)) = Map.empty" for url
    by (simp_all add: mgr_request_def h Let_def step_def assms)
  have c: "fst (fetch_catch down_platform demo_options u None e s') = None"
    if "files s' = Map.empty" for u e s'
    using that by (simp add: fetch_catch_def Snapshot_get_def f Let_def truthy_str_def step_def)
  have "fst (fetchServerList down_platform demo_options ''CURRENT_UNIT'' s) = None"
    using m c [OF m(2)]
    by (cases "mgr_request down_platform demo_options
          (getRequestUrl down_platform demo_options ''CURRENT_UNIT'') s")
       (simp add: fetchServerList_def Let_def split_beta fetch_finish_def)
  then show ?thesis
    by (cases "fetchServerList down_platform demo_options ''CURRENT_UNIT'' s")
       (simp add: getOne_def assms)
qed

lemma pool_env_request_answer:
  assumes "currentServer s = Some h" and "h \<noteq> []"
    and "response_outcome (http p (Suc (tick s))
           (build_request p opts path ro (decimal (now p (tick s))) (Some h))) = Inr v"
  shows "env_request p opts path ro s =
           (Inr v, (step (step s))\<lparr>sent := sent s @
              [build_request p opts path ro (decimal (now p (tick s))) (Some h)]\<rparr>)"
proof -
  have e: "ensure_server p opts (step s) = (Inr (), step s)"
    by (rule ready_ensure_server [of _ h]) (simp_all add: step_def assms)
  have "response_outcome (http p (tick (step s))
      (build_request p opts path ro (decimal (now p (tick s))) (currentServer (step s)))) = Inr v"
    using assms by (simp add: step_def)
  from send_request_answer [OF this] show ?thesis
    by (simp add: env_request_sends [OF e] step_def assms)
qed

lemma pool_env_request_thrown:
  assumes "currentServer s = Some h" and "h \<noteq> []"
    and "serverListCache s = [(''CURRENT_UNIT'', Some \<lparr>hosts = [''h1'', ''h2'', ''h3''], index = 1\<rparr>)]"
    and "http p (Suc (tick s)) (build_request p demo_options path ro (decimal (now p (tick s))) (Some h))
           = Throws e"
  shows "\<exists>err s1. env_request p demo_options path ro s = (Inl err, s1) \<and> err_name err = err_name e
           \<and> files s1 = files s \<and> immediates s1 = immediates s \<and> tick s1 = tick s + 2"
proof -
  let ?req = "build_request p demo_options path ro (decimal (now p (tick s))) (currentServer (step s))"
  let ?s1 = "(step (step s))\<lparr>sent := sent (step s) @ [?req]\<rparr>"
  let ?s2 = "?s1\<lparr>serverListCache := [(''CURRENT_UNIT'', Some \<lparr>hosts = [''h1'', ''h2'', ''h3''], index = 2\<rparr>)]\<rparr>"
  have e: "ensure_server p demo_options (step s) = (Inr (), step s)"
    by (rule ready_ensure_server [of _ h]) (simp_all add: step_def assms)
  have o: "response_outcome (http p (tick (step s)) ?req) = Inl e"
    using assms(4) by (simp add: response_outcome_def step_def assms(1))
  have g: "getOne p demo_options (unit demo_options) ?s1 = (Some ''h2'', ?s2)"
    unfolding demo_unit by (rule pool_getOne) (simp add: step_def assms)
  show ?thesis
    unfolding env_request_sends [OF e] send_request_thrown [OF o g]
    by (simp add: truthy_str_def tag_request_props step_def)
qed






lemma synced_state_fields:
  "subscriptions synced_state = [(''d@g@CURRENT_UNIT'',
      \<lparr>dataId = ''d'', group = ''g'', md5 = Some ''md5-v1'', content = Some ''v1''\<rparr>)]"
  "listeners synced_state = (\<lambda>key. [])(''d@g@CURRENT_UNIT'' := [1])"
  "delivered synced_state = [(1, Some ''v1'')]"
  "nextTicks synced_state = []" "immediates synced_state = []"
  "currentServer synced_state = Some ''h1''" "sent synced_state = []" "tick synced_state = 0"
  by (simp_all add: synced_state_def run_deferred_def sync_result_def subscribed_state_eq
      formatKey_def demo_options_def demo_platform_def ready_state_fields Let_def
      ready_state_def pool_state_def init_state_def)


lemma down_mgr_request:
  "mgr_request down_platform demo_options url s = (Inl (new_Error ''ConnectionTimeoutError''), step s)"
  by (simp add: mgr_request_def down_platform_def Let_def)

lemma demo_server_list_file:
  "getSnapshotFile down_platform demo_options (path_join down_platform [''server_list'', ''CURRENT_UNIT''])
     = ''/cache/snapshot/server_list/CURRENT_UNIT''"
  "getSnapshotFile demo_platform demo_options (mgr_formatKey demo_platform ''CURRENT_UNIT'')
     = ''/cache/snapshot/server_list/CURRENT_UNIT''"
  by (simp_all add: getSnapshotFile_def mgr_formatKey_def down_platform_def demo_platform_def
      demo_options_def)

section \<open>The md5 debounce of \<open>_syncConfigs\<close>\<close>






section \<open>The read path of \<open>getConfig\<close>\<close>




section \<open>A config that is absent\<close>

text \<open>
  C3, as the code has it.  When a current server is at hand and the transport answers
  with 404, \<open>getConfig\<close> returns \<open>null\<close>, throws nothing and queues no error
  event; it does call \<open>snapshot.save(key, null)\<close>, which writes the empty text to the
  file of the key (and to no other file) unless the write fails.
\<close>

theorem getConfig_not_found:
  assumes "ensure_server p opts (step s) = (Inr (), s0)"
    and "http p (tick s0) (build_request p opts ''/config.co'' (getConfig_options opts d g)
          (decimal (now p (tick s))) (currentServer s0)) = Response 404 body"
  shows "fst (getConfig p opts d g s) = Inr None
       \<and> immediates (snd (getConfig p opts d g s)) = immediates s
       \<and> files (snd (getConfig p opts d g s)) =
           (if fs_error p (Suc (tick s0)) = None
            then (files s0)(getSnapshotFile p opts (getSnapshotKey p opts d g) \<mapsto> [])
            else files s0)"
proof -
  let ?r = "build_request p opts ''/config.co'' (getConfig_options opts d g)
          (decimal (now p (tick s))) (currentServer s0)"
  let ?req = "env_request p opts ''/config.co'' (getConfig_options opts d g) s"
  have "response_outcome (http p (tick s0) ?r) = Inr None"
    by (simp add: assms(2) response_outcome_def HTTP_OK_def HTTP_NOT_FOUND_def)
  then have r: "?req = (Inr None, (step s0)\<lparr>sent := sent s0 @ [?r]\<rparr>)"
    by (simp add: env_request_sends [OF assms(1)] send_request_answer)
  then have g: "getConfig p opts d g s =
      (Inr None, Snapshot_save p opts (getSnapshotKey p opts d g) None ((step s0)\<lparr>sent := sent s0 @ [?r]\<rparr>))"
    by (simp add: getConfig_def)
  have "immediates (snd ?req) = immediates s"
    using env_request_frame [of s p opts "''/config.co''" "getConfig_options opts d g"] by simp
  then have i: "immediates s0 = immediates s"
    by (simp add: r step_def)
  have "same_client s' (Snapshot_save p opts k v s')" for s' k v
    by (rule same_client_Snapshot_save)
  then have "immediates (Snapshot_save p opts k v s') = immediates s'" for s' k v
    by (simp add: same_client_def)
  then show ?thesis
    by (simp add: g i Snapshot_save_files step_def truthy_str_def)
qed

theorem getConfig_not_found_witness:
  "fst (getConfig absent_platform demo_options ''d'' ''g'' cached_state) = Inr None
   \<and> immediates (snd (getConfig absent_platform demo_options ''d'' ''g'' cached_state)) = []
   \<and> files (snd (getConfig absent_platform demo_options ''d'' ''g'' cached_state)) = [demo_file \<mapsto> []]"
proof -
  have cs: "currentServer (step cached_state) = Some ''h1''" "files (step cached_state) = [demo_file \<mapsto> ''v_old'']"
    "immediates cached_state = []"
    by (simp_all add: step_def cached_state_def ready_state_fields)
  have e: "ensure_server absent_platform demo_options (step cached_state) = (Inr (), step cached_state)"
    by (rule ready_ensure_server [of _ "''h1''"]) (simp_all add: cs)
  have h: "http absent_platform t r = Response 404 []" for t r
    by (simp add: absent_platform_def)
  have f: "fs_error absent_platform t = None" for t
    by (simp add: absent_platform_def demo_platform_def)
  from getConfig_not_found [OF e h, of "''d''" "''g''"]
  show ?thesis
    by (simp add: f cs other_platform_files demo_file_def)
qed

text \<open>
  The claim as stated, that nothing is written for a 404, fails: with no snapshot for
  \<open>(d, g)\<close> and every request answered with 404, \<open>getConfig\<close> returns
  \<open>null\<close> and leaves a snapshot file for the key, holding the empty text.
\<close>

theorem getConfig_not_found_counterexample:
  "fst (getConfig absent_platform demo_options ''d'' ''g'' ready_state) = Inr None
   \<and> files ready_state demo_file = None
   \<and> files (snd (getConfig absent_platform demo_options ''d'' ''g'' ready_state)) demo_file = Some []"
proof -
  have e: "ensure_server absent_platform demo_options (step ready_state) = (Inr (), step ready_state)"
    by (rule ready_ensure_server [of _ "''h1''"]) (simp_all add: step_def ready_state_fields)
  have h: "http absent_platform t r = Response 404 []" for t r
    by (simp add: absent_platform_def)
  have f: "fs_error absent_platform t = None" for t
    by (simp add: absent_platform_def demo_platform_def)
  have r: "response_outcome (Response 404 []) = Inr None"
    by (simp add: response_outcome_def HTTP_OK_def HTTP_NOT_FOUND_def)
  have "getConfig absent_platform demo_options ''d'' ''g'' ready_state =
     (Inr None, Snapshot_save absent_platform demo_options
        (getSnapshotKey absent_platform demo_options ''d'' ''g'') None
        ((step (step ready_state))\<lparr>sent := sent (step ready_state) @
           [build_request absent_platform demo_options ''/config.co''
              (getConfig_options demo_options ''d'' ''g'')
              (decimal (now absent_platform (tick ready_state))) (currentServer (step ready_state))]\<rparr>))"
    by (simp add: getConfig_def env_request_sends [OF e] send_request_answer h r)
  then show ?thesis
    by (simp add: Snapshot_save_files f truthy_str_def ready_state_fields step_def
        other_platform_files demo_file_def)
qed

section \<open>Round-robin selection\<close>

lemma getOne_times_cached:
  assumes "map_get (serverListCache s) u = Some (Some sd)" "index sd < length (hosts sd)"
  shows "getOne_times p opts u k s =
           (map (\<lambda>j. Some (hosts sd ! ((index sd + j) mod length (hosts sd)))) [0..<k],
            if k = 0 then s else
            s\<lparr>serverListCache := map_set (serverListCache s) u
                 (Some (sd\<lparr>index := (index sd + k) mod length (hosts sd)\<rparr>))\<rparr>)"
  using assms
proof (induction k arbitrary: s sd)
  case 0
  then show ?case by simp
next
  case (Suc k)
  let ?n = "length (hosts sd)"
  let ?sd1 = "sd\<lparr>index := Suc (index sd) mod ?n\<rparr>"
  let ?s1 = "s\<lparr>serverListCache := map_set (serverListCache s) u (Some ?sd1)\<rparr>"
  have n: "0 < ?n" using Suc.prems(2) by (cases "hosts sd") auto
  have g: "getOne p opts u s = (Some (hosts sd ! index sd), ?s1)"
    using getOne_cached [OF Suc.prems] .
  have c1: "map_get (serverListCache ?s1) u = Some (Some ?sd1)"
    by (simp add: map_get_map_set_same)
  have i1: "index ?sd1 < length (hosts ?sd1)" using n by simp
  have idx: "(Suc (index sd) mod ?n + k) mod ?n = (index sd + Suc k) mod ?n"
    by (simp add: mod_add_left_eq)
  have upd: "?s1\<lparr>serverListCache := map_set (serverListCache ?s1) u (Some (sd\<lparr>index := m\<rparr>))\<rparr>
      = s\<lparr>serverListCache := map_set (serverListCache s) u (Some (sd\<lparr>index := m\<rparr>))\<rparr>" for m
    by (simp add: map_set_map_set_same)
  have ih: "getOne_times p opts u k ?s1 =
      (map (\<lambda>j. Some (hosts sd ! ((index sd + Suc j) mod ?n))) [0..<k],
       if k = 0 then ?s1 else
         s\<lparr>serverListCache := map_set (serverListCache s) u
             (Some (sd\<lparr>index := (index sd + Suc k) mod ?n\<rparr>))\<rparr>)"
  proof -
    have "(Suc (index sd) mod ?n + j) mod ?n = (index sd + Suc j) mod ?n" for j
      by (simp add: mod_add_left_eq)
    then show ?thesis
      using Suc.IH [OF c1 i1] upd [of "(index sd + Suc k) mod ?n"]
      by (simp del: upt_Suc)
  qed
  have shift: "map (\<lambda>j. Some (hosts sd ! ((index sd + j) mod ?n))) [0..<Suc k] =
     Some (hosts sd ! index sd) # map (\<lambda>j. Some (hosts sd ! ((index sd + Suc j) mod ?n))) [0..<k]"
  proof -
    have "[0..<Suc k] = 0 # map Suc [0..<k]"
      by (simp add: upt_conv_Cons map_Suc_upt del: upt_Suc)
    then show ?thesis using Suc.prems(2) by (simp add: comp_def del: upt_Suc)
  qed
  have one: "Suc (index sd) mod ?n = (index sd + Suc 0) mod ?n" by simp
  show ?case
    unfolding getOne_times.simps g ih shift Let_def split_conv
    by (cases "k = 0") (simp_all only: one if_True if_False nat.simps simp_thms)
qed

text \<open>
  C4.  A unit whose pool holds \<open>n \<ge> 1\<close> hosts and an index \<open>i < n\<close>: \<open>n\<close>
  calls of \<open>getOne\<close> return the hosts in the cyclic order that starts at \<open>i\<close>,
  each position of the list once, and leave the state as it was; after any \<open>k\<close>
  calls the index is \<open>(i + k) mod n\<close>.
\<close>

theorem getOne_round_robin:
  assumes "map_get (serverListCache s) u = Some (Some sd)"
    and "hosts sd = hs" and "index sd = i" and "length hs = n" and "1 \<le> n" and "i < n"
  shows "fst (getOne_times p opts u n s) = map Some (rotate i hs)
       \<and> mset (rotate i hs) = mset hs
       \<and> snd (getOne_times p opts u n s) = s
       \<and> (\<forall>k. map_get (serverListCache (snd (getOne_times p opts u k s))) u =
                 Some (Some (sd\<lparr>index := (i + k) mod n\<rparr>)))"
proof -
  have il: "index sd < length (hosts sd)" using assms by simp
  note run = getOne_times_cached [OF assms(1) il]
  have "map (\<lambda>j. Some (hs ! ((i + j) mod n))) [0..<n] = map Some (rotate i hs)"
    using assms(4) by (intro nth_equalityI) (simp_all add: nth_rotate)
  then have a: "fst (getOne_times p opts u n s) = map Some (rotate i hs)"
    using run [of p opts n] assms by simp
  have sd: "sd\<lparr>index := i\<rparr> = sd" using assms(3) by simp
  have c: "snd (getOne_times p opts u n s) = s"
    using run [of p opts n] assms by (simp add: sd map_set_idem)
  have d: "map_get (serverListCache (snd (getOne_times p opts u k s))) u =
             Some (Some (sd\<lparr>index := (i + k) mod n\<rparr>))" for k
    using run [of p opts k] assms by (cases "k = 0") (simp_all add: sd map_get_map_set_same)
  have "mset (rotate i hs) = mset (drop (i mod length hs) hs) + mset (take (i mod length hs) hs)"
    by (simp add: rotate_drop_take)
  also have "\<dots> = mset (take (i mod length hs) hs @ drop (i mod length hs) hs)"
    by (simp only: mset_append add.commute)
  finally have b: "mset (rotate i hs) = mset hs" by simp
  show ?thesis using a b c d by simp
qed

theorem getOne_round_robin_witness:
  "fst (getOne_times demo_platform demo_options ''CURRENT_UNIT'' 3 pool_state)
     = [Some ''h2'', Some ''h3'', Some ''h1'']
   \<and> snd (getOne_times demo_platform demo_options ''CURRENT_UNIT'' 3 pool_state) = pool_state"
proof -
  let ?sd = "\<lparr>hosts = [''h1'', ''h2'', ''h3''], index = 1\<rparr>"
  have c: "map_get (serverListCache pool_state) ''CURRENT_UNIT'' = Some (Some ?sd)"
    by (simp add: pool_state_def init_state_def)
  have r: "rotate 1 [''h1'', ''h2'', ''h3''] = [''h2'', ''h3'', ''h1'']"
    by simp
  from getOne_round_robin [OF c, of "[''h1'', ''h2'', ''h3'']" 1 3 demo_platform demo_options]
  have "fst (getOne_times demo_platform demo_options ''CURRENT_UNIT'' 3 pool_state)
          = map Some (rotate 1 [''h1'', ''h2'', ''h3''])
      \<and> snd (getOne_times demo_platform demo_options ''CURRENT_UNIT'' 3 pool_state) = pool_state"
    by simp
  then show ?thesis unfolding r by simp
qed

section \<open>The signature of a request\<close>

lemma toStr_signStr: "toStr (signStr data) = signBody_spec data"
  by (simp add: signStr_def signBody_spec_def Let_def)

lemma request_headers_signed:
  "get_prop (request_headers p opts headers data ts) ''timeStamp'' = Str ts
   \<and> get_prop (request_headers p opts headers data ts) ''Spas-Signature'' =
       Str (hmac_sha1_base64 p (secretKey opts) (signBody_spec data @ ''+'' @ ts))"
  by (simp add: request_headers_def get_prop_def map_get_map_set toStr_signStr Let_def)

text \<open>
  C5.  Whenever \<open>_request\<close> has a current server it hands one request to the
  transport, whose \<open>timeStamp\<close> header is the time stamp \<open>ts\<close> and whose
  \<open>Spas-Signature\<close> header is the base64 HMAC-SHA1, under the secret key, of the
  sign body, \<open>+\<close> and \<open>ts\<close>; with no server it sends nothing.  The sign body
  is \<open>tenant + "+" + group\<close> when both are present in the data, the group when
  only the group is, and the tenant otherwise.
\<close>

theorem request_signature:
  "(ensure_server p opts (step s) = (Inr (), s0) \<longrightarrow>
      (\<exists>req. sent (snd (env_request p opts path ro s)) = sent s @ [req]
         \<and> get_prop (req_headers req) ''timeStamp'' = Str (decimal (now p (tick s)))
         \<and> get_prop (req_headers req) ''Spas-Signature'' =
             Str (hmac_sha1_base64 p (secretKey opts)
                    (signBody_spec (opt_data ro) @ ''+'' @ decimal (now p (tick s))))))
   \<and> (ensure_server p opts (step s) = (Inl unavailable, s0) \<longrightarrow>
        sent (snd (env_request p opts path ro s)) = sent s)
   \<and> (get_prop data ''tenant'' = Str t \<longrightarrow> t \<noteq> [] \<longrightarrow> get_prop data ''group'' = Str g \<longrightarrow> g \<noteq> [] \<longrightarrow>
        signBody_spec data = t @ ''+'' @ g)
   \<and> (\<not> truthy (get_prop data ''tenant'') \<longrightarrow> get_prop data ''group'' = Str g \<longrightarrow> g \<noteq> [] \<longrightarrow>
        signBody_spec data = g)
   \<and> (\<not> truthy (get_prop data ''group'') \<longrightarrow>
        signBody_spec data = toStr (get_prop data ''tenant''))"
proof -
  have a: "\<exists>req. sent (snd (env_request p opts path ro s)) = sent s @ [req]
         \<and> get_prop (req_headers req) ''timeStamp'' = Str (decimal (now p (tick s)))
         \<and> get_prop (req_headers req) ''Spas-Signature'' =
             Str (hmac_sha1_base64 p (secretKey opts)
                    (signBody_spec (opt_data ro) @ ''+'' @ decimal (now p (tick s))))"
    if e: "ensure_server p opts (step s) = (Inr (), s0)"
    using env_request_sent [OF e, of path ro]
    by (simp add: build_request_def Let_def request_headers_signed)
  have b: "sent (snd (env_request p opts path ro s)) = sent s"
    if e: "ensure_server p opts (step s) = (Inl unavailable, s0)"
    using env_request_sent [OF e, of path ro] by simp
  have c: "signBody_spec data = t @ ''+'' @ g"
    if "get_prop data ''tenant'' = Str t" "t \<noteq> []" "get_prop data ''group'' = Str g" "g \<noteq> []"
    using that by (simp add: signBody_spec_def)
  have d: "signBody_spec data = g"
    if "\<not> truthy (get_prop data ''tenant'')" "get_prop data ''group'' = Str g" "g \<noteq> []"
    using that by (simp add: signBody_spec_def)
  have e: "signBody_spec data = toStr (get_prop data ''tenant'')"
    if "\<not> truthy (get_prop data ''group'')"
    using that by (simp add: signBody_spec_def Let_def)
  show ?thesis using a b c d e by blast
qed

theorem request_signature_witness:
  "\<exists>req. sent (snd (env_request demo_platform demo_options ''/config.co''
             (getConfig_options demo_options ''d'' ''g'') ready_state)) = [req]
      \<and> get_prop (req_headers req) ''timeStamp'' = Str ''1500000000000''
      \<and> get_prop (req_headers req) ''Spas-Signature'' = Str ''sig(sk,tenant1+g+1500000000000)''"
proof -
  have e: "ensure_server demo_platform demo_options (step ready_state) = (Inr (), step ready_state)"
    by (rule ready_ensure_server [of _ "''h1''"]) (simp_all add: step_def ready_state_fields)
  have d: "opt_data (getConfig_options demo_options ''d'' ''g'') =
      [(''dataId'', Str ''d''), (''group'', Str ''g''), (''tenant'', Str ''tenant1'')]"
    by (simp add: getConfig_options_def demo_options_def of_option_def)
  have sb: "signBody_spec [(''dataId'', Str ''d''), (''group'', Str ''g''), (''tenant'', Str ''tenant1'')]
      = ''tenant1+g''"
    by (simp add: signBody_spec_def get_prop_def)
  have n: "now demo_platform (tick ready_state) = 1500000000000"
    "hmac_sha1_base64 demo_platform = (\<lambda>k m. ''sig('' @ k @ '','' @ m @ '')'')"
    "secretKey demo_options = ''sk''" "sent ready_state = []"
    by (simp_all add: demo_platform_def demo_options_def ready_state_fields ready_state_def
        pool_state_def init_state_def)
  from request_signature [of demo_platform demo_options ready_state "step ready_state"
      "''/config.co''" "getConfig_options demo_options ''d'' ''g''"] e
  show ?thesis
    by (simp add: d sb n decimal_demo)
qed

section \<open>The body of the probe\<close>

lemma join_empty_append: "join_empty (xs @ ys) = join_empty xs @ join_empty ys"
  by (simp add: join_empty_def)

lemma join_probe_push:
  "join_empty (probe_push tenant acc item) = join_empty acc @ probe_entry_spec tenant item"
  by (cases tenant; cases "md5 item")
     (simp_all add: probe_push_def probe_entry_spec_def join_empty_def md5_text_def
       of_content_def of_option_def truthy_str_def Let_def)

lemma join_probe_foldl:
  "join_empty (foldl (probe_push tenant) acc subs) = join_empty acc @ probe_body_spec tenant subs"
  by (induction subs arbitrary: acc) (simp_all add: probe_body_spec_def join_probe_push)

lemma probe_options_data:
  "opt_data (probe_options opts s) =
     [(''Probe-Modify-Request'', Str (probe_body_spec (namespace opts) (map snd (subscriptions s))))]"
  using join_probe_foldl [of "namespace opts" "[]" "map snd (subscriptions s)"]
  by (simp add: probe_options_def Let_def join_empty_def)

text \<open>
  C6.  With at least one subscription, the \<open>Probe-Modify-Request\<close> field that
  \<open>_checkServerConfigInfo\<close> builds is the concatenation the specification words,
  over the subscriptions in the order of the \<open>Map\<close>; and when a current server is
  at hand, the first request the call sends is the \<open>POST\<close> to \<open>/config.co\<close>
  that carries it.  With no subscription nothing is sent.
\<close>

theorem probe_request_body:
  "(subscriptions s \<noteq> [] \<longrightarrow>
      opt_data (probe_options opts s) =
        [(''Probe-Modify-Request'',
          Str (probe_body_spec (namespace opts) (map snd (subscriptions s))))])
   \<and> (subscriptions s \<noteq> [] \<longrightarrow> ensure_server p opts (step s) = (Inr (), s0) \<longrightarrow>
        (\<exists>req more. sent (snd (checkServerConfigInfo p opts s)) = sent s @ req # more
           \<and> req_method req = ''POST''
           \<and> req_url req = request_url opts (currentServer s0) ''/config.co''
           \<and> req_data req = Obj [(''Probe-Modify-Request'',
                Str (probe_body_spec (namespace opts) (map snd (subscriptions s))))]))
   \<and> (subscriptions s = [] \<longrightarrow> checkServerConfigInfo p opts s = (Inr (), s))"
proof -
  let ?body = "probe_body_spec (namespace opts) (map snd (subscriptions s))"
  let ?ro = "probe_options opts s"
  let ?r = "env_request p opts ''/config.co'' ?ro s"
  have b: "\<exists>req more. sent (snd (checkServerConfigInfo p opts s)) = sent s @ req # more
           \<and> req_method req = ''POST''
           \<and> req_url req = request_url opts (currentServer s0) ''/config.co''
           \<and> req_data req = Obj [(''Probe-Modify-Request'', Str ?body)]"
    if ne: "subscriptions s \<noteq> []" and e: "ensure_server p opts (step s) = (Inr (), s0)"
  proof -
    let ?req = "build_request p opts ''/config.co'' ?ro (decimal (now p (tick s))) (currentServer s0)"
    have s1: "sent (snd ?r) = sent s @ [?req]"
      using env_request_sent [OF e, of "''/config.co''" ?ro] by simp
    have q: "req_method ?req = ''POST'' \<and> req_url ?req = request_url opts (currentServer s0) ''/config.co''
        \<and> req_data ?req = Obj [(''Probe-Modify-Request'', Str ?body)]"
      by (simp add: build_request_def Let_def probe_options_data) (simp add: probe_options_def Let_def)
    have "\<exists>more. sent (snd (checkServerConfigInfo p opts s)) = sent (snd ?r) @ more"
    proof (cases ?r)
      case (Pair res s1)
      have sy: "\<exists>more. sent (syncConfigs p opts l s1) = sent s1 @ more" for l
        by (rule syncConfigs_sent)
      show ?thesis
        using ne sy
        by (auto simp: checkServerConfigInfo_def Pair split: sum.splits)
    qed
    then show ?thesis using s1 q by auto
  qed
  show ?thesis
    using b by (simp add: probe_options_data checkServerConfigInfo_def)
qed

theorem probe_request_body_witness:
  "opt_data (probe_options demo_options synced_state) =
     [(''Probe-Modify-Request'',
       Str (''d'' @ [CHR 0x02] @ ''g'' @ [CHR 0x02] @ ''md5-v1'' @ [CHR 0x02] @ ''tenant1'' @ [CHR 0x01]))]
   \<and> (\<exists>req more. sent (snd (checkServerConfigInfo demo_platform demo_options synced_state)) = req # more
         \<and> req_method req = ''POST''
         \<and> req_url req = ''https://h1:443/diamond-server/config.co''
         \<and> req_data req = Obj [(''Probe-Modify-Request'',
              Str (''d'' @ [CHR 0x02] @ ''g'' @ [CHR 0x02] @ ''md5-v1'' @ [CHR 0x02] @ ''tenant1'' @ [CHR 0x01]))])
   \<and> checkServerConfigInfo demo_platform demo_options ready_state = (Inr (), ready_state)"
proof -
  have e: "ensure_server demo_platform demo_options (step synced_state) = (Inr (), step synced_state)"
    by (rule ready_ensure_server [of _ "''h1''"]) (simp_all add: step_def synced_state_fields)
  have b: "probe_body_spec (namespace demo_options)
        [\<lparr>dataId = ''d'', group = ''g'', md5 = Some ''md5-v1'', content = Some ''v1''\<rparr>] =
      ''d'' @ [CHR 0x02] @ ''g'' @ [CHR 0x02] @ ''md5-v1'' @ [CHR 0x02] @ ''tenant1'' @ [CHR 0x01]"
    by (simp add: probe_body_spec_def probe_entry_spec_def synced_state_fields demo_options_def
        truthy_str_def md5_text_def WORD_SEPARATOR_def LINE_SEPARATOR_def)
  have u: "request_url demo_options (currentServer (step synced_state)) ''/config.co'' =
      ''https://h1:443/diamond-server/config.co''"
    by (simp add: request_url_def step_def synced_state_fields demo_options_def of_content_def)
  have n: "subscriptions synced_state \<noteq> []" "subscriptions ready_state = []"
    by (simp_all add: synced_state_fields ready_state_def pool_state_def init_state_def)
  from probe_request_body [of synced_state demo_options demo_platform "step synced_state"]
       probe_request_body [of ready_state demo_options demo_platform] e n
  show ?thesis
    by (simp add: b u synced_state_fields)
qed

section \<open>The fallback of \<open>_fetchServerList\<close>\<close>

lemma fetchServerList_failed:
  assumes "mgr_request p opts (getRequestUrl p opts u) s = (r, s1)"
    and "r = Inl err \<or> (\<exists>data. r = Inr data \<and> parse_hosts data = []
           \<and> err = tag ''unit'' (Str u) (new_Error ''DiamondServerHostEmptyError''))"
  shows "\<exists>hs. (hs = None \<or> hs = Some []) \<and>
           fetchServerList p opts u s =
             (let (hs', s') = fetch_catch p opts u hs err s1 in fetch_finish p u hs' s')"
  using assms by (auto simp: fetchServerList_def Let_def)

lemma fetch_finish_none:
  "hs = None \<or> hs = Some [] \<Longrightarrow>
   fetch_finish p u hs s = (None, s\<lparr>serverListCache := map_set (serverListCache s) u None\<rparr>)"
  by (auto simp: fetch_finish_def)

lemma mgr_request_outcome:
  "mgr_request p opts url s =
     (case http p (tick s) (mgr_request_of opts url) of
        Throws err \<Rightarrow> Inl err
      | Response status body \<Rightarrow>
          if status \<noteq> 200
          then Inl (tag ''body'' (Str body) (tag ''params'' (Obj [(''timeout'', requestTimeout opts),
                       (''dataType'', Str ''text'')])
                  (tag ''url'' (Str url) (new_Error ''DiamondServerResponseError''))))
          else Inr body,
      step s)"
  by (simp add: mgr_request_def Let_def split: http_result.splits)

lemma Snapshot_get_keeps:
  "files (snd (Snapshot_get p opts key s)) = files s
   \<and> mgrEvents (snd (Snapshot_get p opts key s)) = mgrEvents s
   \<and> serverListCache (snd (Snapshot_get p opts key s)) = serverListCache s"
  by (simp add: Snapshot_get_def step_def Let_def split: option.splits)

lemma fetchServerList_after_failure:
  assumes "mgr_request p opts (getRequestUrl p opts u) s = (r, s1)"
    and "r = Inl err \<or> (\<exists>data. r = Inr data \<and> parse_hosts data = []
           \<and> err = tag ''unit'' (Str u) (new_Error ''DiamondServerHostEmptyError''))"
    and "Snapshot_get p opts (path_join p [''server_list'', u])
           (s1\<lparr>mgrEvents := mgrEvents s1 @ [err]\<rparr>) = (snap, s2)"
  shows "(truthy_str snap \<longrightarrow> JSON_parse p (the snap) = None \<longrightarrow>
            fetchServerList p opts u s =
              (None,
               (Snapshot_delete p opts (path_join p [''server_list'', u]) s2)
                 \<lparr>mgrEvents := mgrEvents s2 @
                    [tag ''data'' (Str (the snap)) (tag ''unit'' (Str u)
                       (new_Error ''ServerListSnapShotJSONParseError''))],
                  serverListCache := map_set (serverListCache s2) u None\<rparr>)
            \<and> map_get (serverListCache (snd (fetchServerList p opts u s))) u = Some None
            \<and> (fs_error p (tick s2) = None \<longrightarrow>
                 files (snd (fetchServerList p opts u s))
                   (getSnapshotFile p opts (path_join p [''server_list'', u])) = None))
       \<and> (\<not> truthy_str snap \<longrightarrow>
            fetchServerList p opts u s =
              (None, s2\<lparr>serverListCache := map_set (serverListCache s2) u None\<rparr>)
            \<and> map_get (serverListCache (snd (fetchServerList p opts u s))) u = Some None)
       \<and> (truthy_str snap \<longrightarrow> JSON_parse p (the snap) = Some [] \<longrightarrow>
            fetchServerList p opts u s =
              (None, s2\<lparr>serverListCache := map_set (serverListCache s2) u None\<rparr>)
            \<and> map_get (serverListCache (snd (fetchServerList p opts u s))) u = Some None)
       \<and> (truthy_str snap \<longrightarrow> JSON_parse p (the snap) = Some h \<longrightarrow> h \<noteq> [] \<longrightarrow>
            fst (fetchServerList p opts u s) = Some \<lparr>hosts = h, index = rand p (tick s2) mod length h\<rparr>
            \<and> map_get (serverListCache (snd (fetchServerList p opts u s))) u =
                 Some (Some \<lparr>hosts = h, index = rand p (tick s2) mod length h\<rparr>)
            \<and> mgrEvents (snd (fetchServerList p opts u s)) = mgrEvents s2)"
proof -
  let ?key = "path_join p [''server_list'', u]"
  have k: "mgr_formatKey p u = ?key" by (simp add: mgr_formatKey_def)
  from fetchServerList_failed [OF assms(1,2)] obtain hs where
    hs: "hs = None \<or> hs = Some []" and
    f: "fetchServerList p opts u s =
          (let (hs', s') = fetch_catch p opts u hs err s1 in fetch_finish p u hs' s')"
    by blast
  have sd: "same_client s2 (Snapshot_delete p opts ?key s2)"
    by (rule same_client_Snapshot_delete)
  have cache_del: "serverListCache (Snapshot_delete p opts ?key s2) = serverListCache s2"
    "mgrEvents (Snapshot_delete p opts ?key s2) = mgrEvents s2"
    by (simp_all add: Snapshot_delete_def step_def Let_def split: option.splits)
  have a: "fetchServerList p opts u s =
              (None,
               (Snapshot_delete p opts ?key s2)
                 \<lparr>mgrEvents := mgrEvents s2 @
                    [tag ''data'' (Str (the snap)) (tag ''unit'' (Str u)
                       (new_Error ''ServerListSnapShotJSONParseError''))],
                  serverListCache := map_set (serverListCache s2) u None\<rparr>)"
    if "truthy_str snap" "JSON_parse p (the snap) = None"
    using that hs assms(3)
    by (auto simp: f fetch_catch_def k Let_def fetch_finish_none cache_del)
  have b: "fetchServerList p opts u s =
              (None, s2\<lparr>serverListCache := map_set (serverListCache s2) u None\<rparr>)"
    if "\<not> truthy_str snap"
    using that hs assms(3)
    by (auto simp: f fetch_catch_def k Let_def fetch_finish_none)
  have c: "fetchServerList p opts u s =
              (None, s2\<lparr>serverListCache := map_set (serverListCache s2) u None\<rparr>)"
    if "truthy_str snap" "JSON_parse p (the snap) = Some []"
    using that hs assms(3)
    by (auto simp: f fetch_catch_def k Let_def fetch_finish_none)
  have d: "fetchServerList p opts u s =
      (Some \<lparr>hosts = h, index = rand p (tick s2) mod length h\<rparr>,
       (step s2)\<lparr>serverListCache := map_set (serverListCache s2) u
          (Some \<lparr>hosts = h, index = rand p (tick s2) mod length h\<rparr>)\<rparr>)"
    if "truthy_str snap" "JSON_parse p (the snap) = Some h" "h \<noteq> []"
    using that hs assms(3)
    by (auto simp: f fetch_catch_def k Let_def fetch_finish_def)
  have a': "map_get (serverListCache (snd (fetchServerList p opts u s))) u = Some None
      \<and> (fs_error p (tick s2) = None \<longrightarrow>
           files (snd (fetchServerList p opts u s)) (getSnapshotFile p opts ?key) = None)"
    if "truthy_str snap" "JSON_parse p (the snap) = None"
    by (simp add: a [OF that] map_get_map_set_same Snapshot_delete_files)
  show ?thesis
    using a a' b c d by (auto simp: map_get_map_set_same step_def)
qed

lemma demo_paths:
  "path_join error_platform = path_join demo_platform"
  "path_join blank_platform = path_join demo_platform"
  "path_join down_platform = path_join demo_platform"
  "fs_error error_platform t = None"
  "fs_error blank_platform t = None"
  "fs_error down_platform t = None"
  "getSnapshotFile error_platform = getSnapshotFile demo_platform"
  "getSnapshotFile blank_platform = getSnapshotFile demo_platform"
  "getSnapshotFile down_platform = getSnapshotFile demo_platform"
  "mgr_formatKey demo_platform u = path_join demo_platform [''server_list'', u]"
  by (simp_all add: error_platform_def blank_platform_def down_platform_def demo_platform_def
      getSnapshotFile_def mgr_formatKey_def fun_eq_iff)

lemma blank_hosts: "parse_hosts [CHR 0x20, CHR 0x0A, CHR 0x0A] = []"
  by (simp add: parse_hosts_def trim_def is_space_def)

text \<open>
  C7, as the code has it.  Let \<open>res\<close> be what the transport gives for the discovery
  request of the unit, and let the fetch fail: the transport throws \<open>err\<close>, or it
  answers with a status other than 200 (\<open>err\<close> is then the
  \<open>DiamondServerResponseError\<close> tagged with url, params and body), or it answers with
  200 and a body with no host in it (\<open>err\<close> is then the
  \<open>DiamondServerHostEmptyError\<close> tagged with the unit).  Then \<open>err\<close> is emitted and
  the snapshot under \<open>server_list/<unit>\<close> is read.  When the snapshot holds a text
  that is not empty and does not parse, the snapshot is deleted, a
  \<open>ServerListSnapShotJSONParseError\<close> tagged with the unit and the text is emitted
  after \<open>err\<close>, the cache entry of the unit is \<open>null\<close> and \<open>null\<close> is
  returned.  When there is no snapshot, or the snapshot is the empty text, no file is
  touched, nothing but \<open>err\<close> is emitted, the cache entry is \<open>null\<close> and
  \<open>null\<close> is returned.  When the snapshot parses to no host, the cache entry is
  \<open>null\<close> and \<open>null\<close> is returned.  When it parses to hosts, they become the
  pool of the unit and nothing but \<open>err\<close> is emitted.
\<close>

theorem fetchServerList_fallback:
  assumes "http p (tick s) (mgr_request_of opts (getRequestUrl p opts u)) = res"
    and "res = Throws err
       \<or> (\<exists>status body. res = Response status body \<and> status \<noteq> 200
            \<and> err = tag ''body'' (Str body) (tag ''params''
                  (Obj [(''timeout'', requestTimeout opts), (''dataType'', Str ''text'')])
                  (tag ''url'' (Str (getRequestUrl p opts u)) (new_Error ''DiamondServerResponseError''))))
       \<or> (\<exists>body. res = Response 200 body \<and> parse_hosts body = []
            \<and> err = tag ''unit'' (Str u) (new_Error ''DiamondServerHostEmptyError''))"
    and "Snapshot_get p opts (path_join p [''server_list'', u])
           ((step s)\<lparr>mgrEvents := mgrEvents s @ [err]\<rparr>) = (snap, s2)"
  shows "(snap = Some t \<longrightarrow> t \<noteq> [] \<longrightarrow> JSON_parse p t = None \<longrightarrow>
            fetchServerList p opts u s =
              (None,
               (Snapshot_delete p opts (path_join p [''server_list'', u]) s2)
                 \<lparr>mgrEvents := mgrEvents s @
                    [err, tag ''data'' (Str t) (tag ''unit'' (Str u)
                       (new_Error ''ServerListSnapShotJSONParseError''))],
                  serverListCache := map_set (serverListCache s) u None\<rparr>)
            \<and> map_get (serverListCache (snd (fetchServerList p opts u s))) u = Some None
            \<and> (fs_error p (tick s2) = None \<longrightarrow>
                 files (snd (fetchServerList p opts u s))
                   (getSnapshotFile p opts (path_join p [''server_list'', u])) = None))
       \<and> (snap = None \<or> snap = Some [] \<longrightarrow>
            fetchServerList p opts u s =
              (None, s2\<lparr>serverListCache := map_set (serverListCache s) u None\<rparr>)
            \<and> map_get (serverListCache (snd (fetchServerList p opts u s))) u = Some None
            \<and> files (snd (fetchServerList p opts u s)) = files s
            \<and> mgrEvents (snd (fetchServerList p opts u s)) = mgrEvents s @ [err])
       \<and> (snap = Some t \<longrightarrow> t \<noteq> [] \<longrightarrow> JSON_parse p t = Some [] \<longrightarrow>
            fetchServerList p opts u s =
              (None, s2\<lparr>serverListCache := map_set (serverListCache s) u None\<rparr>)
            \<and> map_get (serverListCache (snd (fetchServerList p opts u s))) u = Some None)
       \<and> (snap = Some t \<longrightarrow> t \<noteq> [] \<longrightarrow> JSON_parse p t = Some h \<longrightarrow> h \<noteq> [] \<longrightarrow>
            fst (fetchServerList p opts u s) = Some \<lparr>hosts = h, index = rand p (tick s2) mod length h\<rparr>
            \<and> map_get (serverListCache (snd (fetchServerList p opts u s))) u =
                 Some (Some \<lparr>hosts = h, index = rand p (tick s2) mod length h\<rparr>)
            \<and> mgrEvents (snd (fetchServerList p opts u s)) = mgrEvents s @ [err])"
proof -
  let ?key = "path_join p [''server_list'', u]"
  let ?url = "getRequestUrl p opts u"
  obtain r where m: "mgr_request p opts ?url s = (r, step s)"
    and r: "r = Inl err \<or> (\<exists>data. r = Inr data \<and> parse_hosts data = []
           \<and> err = tag ''unit'' (Str u) (new_Error ''DiamondServerHostEmptyError''))"
    using assms(1,2) by (auto simp: mgr_request_outcome)
  have g: "Snapshot_get p opts ?key ((step s)\<lparr>mgrEvents := mgrEvents (step s) @ [err]\<rparr>) = (snap, s2)"
    using assms(3) by (simp add: step_def)
  note run = fetchServerList_after_failure [OF m r g]
  have keep: "files s2 = files s" "mgrEvents s2 = mgrEvents s @ [err]"
    "serverListCache s2 = serverListCache s"
    using Snapshot_get_keeps [of p opts ?key "(step s)\<lparr>mgrEvents := mgrEvents s @ [err]\<rparr>"] assms(3)
    by (simp_all add: step_def)
  have a: "fetchServerList p opts u s =
              (None,
               (Snapshot_delete p opts ?key s2)
                 \<lparr>mgrEvents := mgrEvents s @
                    [err, tag ''data'' (Str t) (tag ''unit'' (Str u)
                       (new_Error ''ServerListSnapShotJSONParseError''))],
                  serverListCache := map_set (serverListCache s) u None\<rparr>)
            \<and> map_get (serverListCache (snd (fetchServerList p opts u s))) u = Some None
            \<and> (fs_error p (tick s2) = None \<longrightarrow>
                 files (snd (fetchServerList p opts u s)) (getSnapshotFile p opts ?key) = None)"
    if "snap = Some t" "t \<noteq> []" "JSON_parse p t = None"
  proof -
    have tr: "truthy_str snap" using that by (simp add: truthy_str_def)
    have pj: "JSON_parse p (the snap) = None" using that by simp
    note r1 = run [of "[]", THEN conjunct1, rule_format, OF tr pj]
    have e: "fetchServerList p opts u s =
              (None,
               (Snapshot_delete p opts ?key s2)
                 \<lparr>mgrEvents := mgrEvents s @
                    [err, tag ''data'' (Str t) (tag ''unit'' (Str u)
                       (new_Error ''ServerListSnapShotJSONParseError''))],
                  serverListCache := map_set (serverListCache s) u None\<rparr>)"
      using r1 [THEN conjunct1] that(1) by (simp add: keep)
    show ?thesis
      using e r1 [THEN conjunct2, THEN conjunct1] r1 [THEN conjunct2, THEN conjunct2]
      by blast
  qed
  have b: "fetchServerList p opts u s =
              (None, s2\<lparr>serverListCache := map_set (serverListCache s) u None\<rparr>)
            \<and> map_get (serverListCache (snd (fetchServerList p opts u s))) u = Some None
            \<and> files (snd (fetchServerList p opts u s)) = files s
            \<and> mgrEvents (snd (fetchServerList p opts u s)) = mgrEvents s @ [err]"
    if "snap = None \<or> snap = Some []"
  proof -
    have "\<not> truthy_str snap" using that by (auto simp: truthy_str_def)
    with run [of "[]", THEN conjunct2, THEN conjunct1]
    have e: "fetchServerList p opts u s =
        (None, s2\<lparr>serverListCache := map_set (serverListCache s2) u None\<rparr>)"
      by simp
    show ?thesis
      unfolding e by (simp add: keep map_get_map_set_same)
  qed
  have c: "fetchServerList p opts u s =
              (None, s2\<lparr>serverListCache := map_set (serverListCache s) u None\<rparr>)
            \<and> map_get (serverListCache (snd (fetchServerList p opts u s))) u = Some None"
    if "snap = Some t" "t \<noteq> []" "JSON_parse p t = Some []"
    using run [of "[]", THEN conjunct2, THEN conjunct2, THEN conjunct1] that
    by (simp add: truthy_str_def keep map_get_map_set_same)
  have d: "fst (fetchServerList p opts u s) = Some \<lparr>hosts = h, index = rand p (tick s2) mod length h\<rparr>
            \<and> map_get (serverListCache (snd (fetchServerList p opts u s))) u =
                 Some (Some \<lparr>hosts = h, index = rand p (tick s2) mod length h\<rparr>)
            \<and> mgrEvents (snd (fetchServerList p opts u s)) = mgrEvents s @ [err]"
    if "snap = Some t" "t \<noteq> []" "JSON_parse p t = Some h" "h \<noteq> []"
    using run [of h, THEN conjunct2, THEN conjunct2, THEN conjunct2] that
    by (simp add: truthy_str_def keep)
  show ?thesis using a b c d by blast
qed

theorem fetchServerList_fallback_witness:
  "fst (fetchServerList error_platform demo_options ''CURRENT_UNIT'' corrupt_state) = None
   \<and> map_get (serverListCache (snd (fetchServerList error_platform demo_options ''CURRENT_UNIT''
         corrupt_state))) ''CURRENT_UNIT'' = Some None
   \<and> files (snd (fetchServerList error_platform demo_options ''CURRENT_UNIT'' corrupt_state))
         ''/cache/snapshot/server_list/CURRENT_UNIT'' = None
   \<and> map err_name (mgrEvents (snd (fetchServerList error_platform demo_options ''CURRENT_UNIT''
         corrupt_state))) = [''DiamondServerResponseError'', ''ServerListSnapShotJSONParseError'']
   \<and> fst (fetchServerList blank_platform demo_options ''CURRENT_UNIT'' snapshot_state) =
         Some \<lparr>hosts = [''h1'', ''h2''], index = 0\<rparr>
   \<and> map err_name (mgrEvents (snd (fetchServerList blank_platform demo_options ''CURRENT_UNIT''
         snapshot_state))) = [''DiamondServerHostEmptyError'']
   \<and> fetchServerList down_platform demo_options ''CURRENT_UNIT'' init_state =
         (None, init_state\<lparr>tick := 2, mgrEvents := [new_Error ''ConnectionTimeoutError''],
            serverListCache := [(''CURRENT_UNIT'', None)]\<rparr>)"
proof -
  let ?u = "''CURRENT_UNIT''"
  let ?file = "''/cache/snapshot/server_list/CURRENT_UNIT''"
  let ?key = "path_join demo_platform [''server_list'', ?u]"
  have fl: "getSnapshotFile demo_platform demo_options ?key = ?file"
    using demo_server_list_file(2) by (simp add: demo_paths)
  \<comment> \<open>a status other than 200, an unparseable snapshot\<close>
  let ?url1 = "getRequestUrl error_platform demo_options ?u"
  let ?e1 = "tag ''body'' (Str ''busy'') (tag ''params''
        (Obj [(''timeout'', requestTimeout demo_options), (''dataType'', Str ''text'')])
        (tag ''url'' (Str ?url1) (new_Error ''DiamondServerResponseError'')))"
  let ?c1 = "(step corrupt_state)\<lparr>mgrEvents := mgrEvents corrupt_state @ [?e1]\<rparr>"
  have h1: "http error_platform (tick corrupt_state) (mgr_request_of demo_options ?url1)
      = Response 500 ''busy''"
    by (simp add: error_platform_def)
  have d1: "Response 500 ''busy'' = Throws ?e1
       \<or> (\<exists>status body. Response 500 ''busy'' = Response status body \<and> status \<noteq> 200
            \<and> ?e1 = tag ''body'' (Str body) (tag ''params''
                  (Obj [(''timeout'', requestTimeout demo_options), (''dataType'', Str ''text'')])
                  (tag ''url'' (Str ?url1) (new_Error ''DiamondServerResponseError''))))
       \<or> (\<exists>body. Response 500 ''busy'' = Response 200 body \<and> parse_hosts body = []
            \<and> ?e1 = tag ''unit'' (Str ?u) (new_Error ''DiamondServerHostEmptyError''))"
    by simp
  have g1: "Snapshot_get error_platform demo_options (path_join error_platform [''server_list'', ?u]) ?c1
      = (Some ''not json'', step ?c1)"
    by (simp add: Snapshot_get_ok demo_paths fl corrupt_state_def step_def demo_server_list_file)
  have j1: "JSON_parse error_platform ''not json'' = None"
    by (simp add: error_platform_def demo_platform_def)
  have ne1: "''not json'' \<noteq> []" by simp
  note one = fetchServerList_fallback [OF h1 d1 g1, where t = "''not json''" and h = "[]",
      THEN conjunct1, rule_format, OF refl ne1 j1]
  have a1: "fst (fetchServerList error_platform demo_options ?u corrupt_state) = None"
    using one [THEN conjunct1] by simp
  have a2: "map_get (serverListCache (snd (fetchServerList error_platform demo_options ?u
         corrupt_state))) ?u = Some None"
    using one [THEN conjunct2, THEN conjunct1] .
  have a3: "files (snd (fetchServerList error_platform demo_options ?u corrupt_state)) ?file = None"
    using one [THEN conjunct2, THEN conjunct2, rule_format, OF demo_paths(4)]
    by (simp only: demo_paths fl)
  have a4: "map err_name (mgrEvents (snd (fetchServerList error_platform demo_options ?u
         corrupt_state))) = [''DiamondServerResponseError'', ''ServerListSnapShotJSONParseError'']"
    unfolding one [THEN conjunct1]
    by (simp add: corrupt_state_def init_state_def new_Error_def tag_def)
  \<comment> \<open>a 200 answer with no host in it, a snapshot that parses\<close>
  let ?url2 = "getRequestUrl blank_platform demo_options ?u"
  let ?e2 = "tag ''unit'' (Str ?u) (new_Error ''DiamondServerHostEmptyError'')"
  let ?c2 = "(step snapshot_state)\<lparr>mgrEvents := mgrEvents snapshot_state @ [?e2]\<rparr>"
  let ?blank = "[CHR 0x20, CHR 0x0A, CHR 0x0A]"
  have h2: "http blank_platform (tick snapshot_state) (mgr_request_of demo_options ?url2)
      = Response 200 ?blank"
    by (simp add: blank_platform_def)
  have d2: "Response 200 ?blank = Throws ?e2
       \<or> (\<exists>status body. Response 200 ?blank = Response status body \<and> status \<noteq> 200
            \<and> ?e2 = tag ''body'' (Str body) (tag ''params''
                  (Obj [(''timeout'', requestTimeout demo_options), (''dataType'', Str ''text'')])
                  (tag ''url'' (Str ?url2) (new_Error ''DiamondServerResponseError''))))
       \<or> (\<exists>body. Response 200 ?blank = Response 200 body \<and> parse_hosts body = []
            \<and> ?e2 = tag ''unit'' (Str ?u) (new_Error ''DiamondServerHostEmptyError''))"
    using blank_hosts by simp
  have g2: "Snapshot_get blank_platform demo_options (path_join blank_platform [''server_list'', ?u]) ?c2
      = (Some ''[h1,h2,]'', step ?c2)"
    by (simp add: Snapshot_get_ok demo_paths fl snapshot_state_def step_def demo_server_list_file)
  have j2: "JSON_parse blank_platform ''[h1,h2,]'' = Some [''h1'', ''h2'']"
    "rand blank_platform = (\<lambda>t. t)"
    by (simp_all add: blank_platform_def demo_platform_def)
  have ne2: "''[h1,h2,]'' \<noteq> []" "[''h1'', ''h2''] \<noteq> []" by simp_all
  note two = fetchServerList_fallback [OF h2 d2 g2, where t = "''[h1,h2,]''" and h = "[''h1'', ''h2'']"]
  have b1: "fst (fetchServerList blank_platform demo_options ?u snapshot_state) =
         Some \<lparr>hosts = [''h1'', ''h2''], index = 0\<rparr>"
    using two [THEN conjunct2, THEN conjunct2, THEN conjunct2, rule_format, OF refl ne2(1) j2(1) ne2(2),
        THEN conjunct1]
    by (simp add: j2 step_def snapshot_state_def init_state_def)
  have b2: "map err_name (mgrEvents (snd (fetchServerList blank_platform demo_options ?u
         snapshot_state))) = [''DiamondServerHostEmptyError'']"
    using two [THEN conjunct2, THEN conjunct2, THEN conjunct2, rule_format, OF refl ne2(1) j2(1) ne2(2),
        THEN conjunct2, THEN conjunct2]
    by (simp add: snapshot_state_def init_state_def new_Error_def tag_def)
  \<comment> \<open>a transport error, no snapshot\<close>
  let ?url3 = "getRequestUrl down_platform demo_options ?u"
  let ?e3 = "new_Error ''ConnectionTimeoutError''"
  let ?c3 = "(step init_state)\<lparr>mgrEvents := mgrEvents init_state @ [?e3]\<rparr>"
  have h3: "http down_platform (tick init_state) (mgr_request_of demo_options ?url3) = Throws ?e3"
    by (simp add: down_platform_def)
  have d3: "Throws ?e3 = Throws ?e3
       \<or> (\<exists>status body. Throws ?e3 = Response status body \<and> status \<noteq> 200
            \<and> ?e3 = tag ''body'' (Str body) (tag ''params''
                  (Obj [(''timeout'', requestTimeout demo_options), (''dataType'', Str ''text'')])
                  (tag ''url'' (Str ?url3) (new_Error ''DiamondServerResponseError''))))
       \<or> (\<exists>body. Throws ?e3 = Response 200 body \<and> parse_hosts body = []
            \<and> ?e3 = tag ''unit'' (Str ?u) (new_Error ''DiamondServerHostEmptyError''))"
    by simp
  have g3: "Snapshot_get down_platform demo_options (path_join down_platform [''server_list'', ?u]) ?c3
      = (None, step ?c3)"
    by (simp add: Snapshot_get_ok demo_paths init_state_def step_def)
  have n3: "(None :: string option) = None \<or> (None :: string option) = Some []" by simp
  note three = fetchServerList_fallback [OF h3 d3 g3, where t = "[]" and h = "[]",
      THEN conjunct2, THEN conjunct1, rule_format, OF n3]
  have c1: "fetchServerList down_platform demo_options ?u init_state =
         (None, init_state\<lparr>tick := 2, mgrEvents := [new_Error ''ConnectionTimeoutError''],
            serverListCache := [(''CURRENT_UNIT'', None)]\<rparr>)"
    unfolding three [THEN conjunct1]
    by (simp add: step_def init_state_def)
  show ?thesis using a1 a2 a3 a4 b1 b2 c1 by simp
qed

text \<open>
  The claim as stated, that a snapshot which exists and does not parse is deleted and
  reported, fails for a snapshot that exists and is empty (\<open>if (content)\<close>): the
  empty text does not parse, yet after a failed fetch the file is still there and the
  only error emitted is that of the fetch.
\<close>

theorem fetchServerList_fallback_counterexample:
  "files empty_snapshot_state ''/cache/snapshot/server_list/CURRENT_UNIT'' = Some []
   \<and> JSON_parse down_platform [] = None
   \<and> fst (fetchServerList down_platform demo_options ''CURRENT_UNIT'' empty_snapshot_state) = None
   \<and> files (snd (fetchServerList down_platform demo_options ''CURRENT_UNIT'' empty_snapshot_state))
        ''/cache/snapshot/server_list/CURRENT_UNIT'' = Some []
   \<and> map err_name (mgrEvents (snd (fetchServerList down_platform demo_options ''CURRENT_UNIT''
        empty_snapshot_state))) = [''ConnectionTimeoutError'']"
proof -
  let ?u = "''CURRENT_UNIT''"
  let ?e = "new_Error ''ConnectionTimeoutError''"
  let ?c = "(step empty_snapshot_state)\<lparr>mgrEvents := mgrEvents (step empty_snapshot_state) @ [?e]\<rparr>"
  have fl: "getSnapshotFile demo_platform demo_options (path_join demo_platform [''server_list'', ?u])
      = ''/cache/snapshot/server_list/CURRENT_UNIT''"
    using demo_server_list_file(2) by (simp add: demo_paths)
  have g: "Snapshot_get down_platform demo_options (path_join down_platform [''server_list'', ?u]) ?c
      = (Some [], step ?c)"
    by (simp add: Snapshot_get_ok demo_paths fl empty_snapshot_state_def step_def demo_server_list_file)
  have d: "(Inl ?e :: js_error + string) = Inl ?e \<or> (\<exists>data. (Inl ?e :: js_error + string) = Inr data
      \<and> parse_hosts data = []
      \<and> ?e = tag ''unit'' (Str ?u) (new_Error ''DiamondServerHostEmptyError''))"
    by simp
  have nt: "\<not> truthy_str (Some [])" by (simp add: truthy_str_def)
  note run = fetchServerList_after_failure [OF down_mgr_request d g, of "[]",
      THEN conjunct2, THEN conjunct1, rule_format, OF nt, THEN conjunct1]
  have a: "files empty_snapshot_state ''/cache/snapshot/server_list/CURRENT_UNIT'' = Some []"
    by (simp add: empty_snapshot_state_def demo_server_list_file)
  have b: "JSON_parse down_platform [] = None"
    by (simp add: down_platform_def demo_platform_def)
  have c: "fst (fetchServerList down_platform demo_options ?u empty_snapshot_state) = None"
    unfolding run by simp
  have e: "files (snd (fetchServerList down_platform demo_options ?u empty_snapshot_state))
        ''/cache/snapshot/server_list/CURRENT_UNIT'' = Some []"
    unfolding run by (simp add: step_def empty_snapshot_state_def demo_server_list_file)
  have f: "map err_name (mgrEvents (snd (fetchServerList down_platform demo_options ?u
        empty_snapshot_state))) = [''ConnectionTimeoutError'']"
    unfolding run by (simp add: step_def empty_snapshot_state_def init_state_def new_Error_def)
  show ?thesis using a b c e f by simp
qed

section \<open>A request that fails\<close>

text \<open>
  C8, as the code has it.  A current server being at hand, let \<open>req\<close> be the
  request sent and \<open>h\<close> what \<open>getOne\<close> gives after it; \<open>h\<close> becomes the
  current server.  For a status other than 200, 404 and 409, \<open>_request\<close> throws an
  error named \<open>DiamondServerResponseError\<close>, tagged with \<open>url\<close>, \<open>data\<close> and
  \<open>headers\<close>.  For an error \<open>e\<close> thrown by the transport it throws \<open>e\<close>,
  tagged in the same way and under the name \<open>e\<close> came with.  Both when \<open>h\<close> is a
  host: when \<open>getOne\<close> gives none, \<open>DiamondServerUnavailableError\<close> is thrown in
  place of the error.
\<close>

theorem request_failure:
  assumes "ensure_server p opts (step s) = (Inr (), s0)"
    and "req = build_request p opts path ro (decimal (now p (tick s))) (currentServer s0)"
    and "getOne p opts (unit opts) ((step s0)\<lparr>sent := sent s0 @ [req]\<rparr>) = (h, s2)"
  shows "(http p (tick s0) req = Response status body \<longrightarrow>
            status \<noteq> 200 \<longrightarrow> status \<noteq> 404 \<longrightarrow> status \<noteq> 409 \<longrightarrow> truthy_str h \<longrightarrow>
              env_request p opts path ro s =
                (Inl (tag_request ro req (tag ''body'' (Str body) (new_Error ''DiamondServerResponseError''))),
                 s2\<lparr>currentServer := h\<rparr>)
              \<and> err_name (tag_request ro req (tag ''body'' (Str body)
                    (new_Error ''DiamondServerResponseError''))) = ''DiamondServerResponseError'')
       \<and> (http p (tick s0) req = Throws e \<longrightarrow> truthy_str h \<longrightarrow>
              env_request p opts path ro s = (Inl (tag_request ro req e), s2\<lparr>currentServer := h\<rparr>))
       \<and> ((http p (tick s0) req = Throws e \<or>
            (http p (tick s0) req = Response status body \<and> status \<noteq> 200 \<and> status \<noteq> 404)) \<longrightarrow>
            \<not> truthy_str h \<longrightarrow>
              env_request p opts path ro s =
                (Inl (tag ''unit'' (Str (unit opts)) (new_Error ''DiamondServerUnavailableError'')),
                 s2\<lparr>currentServer := h\<rparr>))
       \<and> err_name (tag_request ro req e) = err_name e
       \<and> get_prop (err_props (tag_request ro req e)) ''url'' = Str (req_method req @ '' '' @ req_url req)
       \<and> get_prop (err_props (tag_request ro req e)) ''data'' = Obj (opt_data ro)
       \<and> get_prop (err_props (tag_request ro req e)) ''headers'' = Obj (req_headers req)"
proof -
  let ?ts = "decimal (now p (tick s))"
  have run: "env_request p opts path ro s =
           (if truthy_str h then Inl (tag_request ro req err)
            else Inl (tag ''unit'' (Str (unit opts)) (new_Error ''DiamondServerUnavailableError'')),
            s2\<lparr>currentServer := h\<rparr>)"
    if "response_outcome (http p (tick s0) req) = Inl err" for err
    using send_request_thrown [of p s0 opts path ro ?ts err h s2] that assms(2,3)
    by (simp add: env_request_sends [OF assms(1)])
  have st: "response_outcome (Response status body) =
      Inl (tag ''body'' (Str body) (new_Error ''DiamondServerResponseError''))"
    if "status \<noteq> 200" "status \<noteq> 404" "status \<noteq> 409"
    using that by (simp add: response_outcome_def HTTP_OK_def HTTP_NOT_FOUND_def HTTP_CONFLICT_def)
  have st': "\<exists>err. response_outcome (Response status body) = Inl err"
    if "status \<noteq> 200" "status \<noteq> 404"
    using that by (simp add: response_outcome_def HTTP_OK_def HTTP_NOT_FOUND_def HTTP_CONFLICT_def)
  have th: "response_outcome (Throws e) = Inl e"
    by (simp add: response_outcome_def)
  have a: "env_request p opts path ro s =
                (Inl (tag_request ro req (tag ''body'' (Str body) (new_Error ''DiamondServerResponseError''))),
                 s2\<lparr>currentServer := h\<rparr>)"
    if "http p (tick s0) req = Response status body" "status \<noteq> 200" "status \<noteq> 404"
      "status \<noteq> 409" "truthy_str h"
    using run [of "tag ''body'' (Str body) (new_Error ''DiamondServerResponseError'')"] st that
    by simp
  have a': "err_name (tag_request ro req (tag ''body'' (Str body)
                    (new_Error ''DiamondServerResponseError''))) = ''DiamondServerResponseError''"
    by (simp add: tag_request_props tag_def new_Error_def)
  have b: "env_request p opts path ro s = (Inl (tag_request ro req e), s2\<lparr>currentServer := h\<rparr>)"
    if "http p (tick s0) req = Throws e" "truthy_str h"
    using run [of e] th that by simp
  have c: "env_request p opts path ro s =
                (Inl (tag ''unit'' (Str (unit opts)) (new_Error ''DiamondServerUnavailableError'')),
                 s2\<lparr>currentServer := h\<rparr>)"
    if "http p (tick s0) req = Throws e \<or>
            (http p (tick s0) req = Response status body \<and> status \<noteq> 200 \<and> status \<noteq> 404)"
      "\<not> truthy_str h"
  proof -
    from that(1) obtain err where "response_outcome (http p (tick s0) req) = Inl err"
      using th st' by auto
    from run [OF this] that(2) show ?thesis by simp
  qed
  show ?thesis using a a' b c tag_request_props [of ro req e] by blast
qed

theorem request_failure_witness:
  "thrown_name (fst (env_request error_platform demo_options ''/config.co''
        (getConfig_options demo_options ''d'' ''g'') ready_state)) = Some ''DiamondServerResponseError''
   \<and> currentServer (snd (env_request error_platform demo_options ''/config.co''
        (getConfig_options demo_options ''d'' ''g'') ready_state)) = Some ''h2''
   \<and> thrown_name (fst (env_request down_platform demo_options ''/config.co''
        (getConfig_options demo_options ''d'' ''g'') lost_state)) = Some ''DiamondServerUnavailableError''
   \<and> currentServer (snd (env_request down_platform demo_options ''/config.co''
        (getConfig_options demo_options ''d'' ''g'') lost_state)) = None
   \<and> currentServer (snd (env_request down_platform demo_options ''/config.co''
        (getConfig_options demo_options ''d'' ''g'') ready_state)) = Some ''h2''"
proof -
  let ?ro = "getConfig_options demo_options ''d'' ''g''"
  let ?req = "build_request error_platform demo_options ''/config.co'' ?ro
      (decimal (now error_platform (tick ready_state))) (currentServer (step ready_state))"
  let ?s1 = "(step (step ready_state))\<lparr>sent := sent (step ready_state) @ [?req]\<rparr>"
  let ?s2 = "?s1\<lparr>serverListCache := [(''CURRENT_UNIT'', Some \<lparr>hosts = [''h1'', ''h2'', ''h3''], index = 2\<rparr>)]\<rparr>"
  have e: "ensure_server error_platform demo_options (step ready_state) = (Inr (), step ready_state)"
    by (rule ready_ensure_server [of _ "''h1''"]) (simp_all add: step_def ready_state_fields)
  have h: "http error_platform (tick (step ready_state)) ?req = Response 500 ''busy''"
    by (simp add: error_platform_def)
  have g: "getOne error_platform demo_options (unit demo_options) ?s1 = (Some ''h2'', ?s2)"
    unfolding demo_unit by (rule pool_getOne) (simp add: step_def ready_state_fields)
  let ?req' = "build_request down_platform demo_options ''/config.co'' ?ro
      (decimal (now down_platform (tick lost_state))) (currentServer (step lost_state))"
  let ?t1 = "(step (step lost_state))\<lparr>sent := sent (step lost_state) @ [?req']\<rparr>"
  have e': "ensure_server down_platform demo_options (step lost_state) = (Inr (), step lost_state)"
    by (rule ready_ensure_server [of _ "''h1''"]) (simp_all add: step_def lost_state_def)
  have h': "http down_platform (tick (step lost_state)) ?req' = Throws (new_Error ''ConnectionTimeoutError'')"
    by (simp add: down_platform_def)
  obtain t2 where g': "getOne down_platform demo_options (unit demo_options) ?t1 = (None, t2)"
    using lost_getOne [of ?t1]
    by (cases "getOne down_platform demo_options (unit demo_options) ?t1")
       (simp add: demo_unit step_def lost_state_def init_state_def)
  let ?req'' = "build_request down_platform demo_options ''/config.co'' ?ro
      (decimal (now down_platform (tick ready_state))) (currentServer (step ready_state))"
  let ?u1 = "(step (step ready_state))\<lparr>sent := sent (step ready_state) @ [?req'']\<rparr>"
  let ?u2 = "?u1\<lparr>serverListCache := [(''CURRENT_UNIT'', Some \<lparr>hosts = [''h1'', ''h2'', ''h3''], index = 2\<rparr>)]\<rparr>"
  have e'': "ensure_server down_platform demo_options (step ready_state) = (Inr (), step ready_state)"
    by (rule ready_ensure_server [of _ "''h1''"]) (simp_all add: step_def ready_state_fields)
  have h'': "http down_platform (tick (step ready_state)) ?req'' = Throws (new_Error ''ConnectionTimeoutError'')"
    by (simp add: down_platform_def)
  have g'': "getOne down_platform demo_options (unit demo_options) ?u1 = (Some ''h2'', ?u2)"
    unfolding demo_unit by (rule pool_getOne) (simp add: step_def ready_state_fields)
  from request_failure [OF e'' refl g'', of 500 "''busy''" "new_Error ''ConnectionTimeoutError''"] h''
  have third: "currentServer (snd (env_request down_platform demo_options ''/config.co'' ?ro ready_state))
      = Some ''h2''"
    by (simp add: truthy_str_def)
  from request_failure [OF e refl g, of 500 "''busy''" "new_Error ''ConnectionTimeoutError''"]
       request_failure [OF e' refl g', of 500 "''busy''" "new_Error ''ConnectionTimeoutError''"]
       h h'
  show ?thesis
    using third by (simp add: truthy_str_def thrown_name_def tag_def new_Error_def)
qed

text \<open>
  The claim as stated, that a transport error leaves \<open>_request\<close> under the name
  \<open>DiamondServerResponseError\<close>, fails: a \<open>ConnectionTimeoutError\<close> of the
  transport is thrown on under its own name.
\<close>

theorem request_failure_counterexample:
  "http down_platform 1 (build_request down_platform demo_options ''/config.co''
       (getConfig_options demo_options ''d'' ''g'') (decimal (now down_platform 0)) (Some ''h1''))
     = Throws (new_Error ''ConnectionTimeoutError'')
   \<and> thrown_name (fst (env_request down_platform demo_options ''/config.co''
        (getConfig_options demo_options ''d'' ''g'') ready_state)) = Some ''ConnectionTimeoutError''"
proof -
  let ?ro = "getConfig_options demo_options ''d'' ''g''"
  let ?req = "build_request down_platform demo_options ''/config.co'' ?ro
      (decimal (now down_platform (tick ready_state))) (currentServer (step ready_state))"
  have e: "ensure_server down_platform demo_options (step ready_state) = (Inr (), step ready_state)"
    by (rule ready_ensure_server [of _ "''h1''"]) (simp_all add: step_def ready_state_fields)
  have h: "http down_platform t r = Throws (new_Error ''ConnectionTimeoutError'')" for t r
    by (simp add: down_platform_def)
  have o: "response_outcome (http down_platform (tick (step ready_state)) ?req) =
      Inl (new_Error ''ConnectionTimeoutError'')"
    by (simp add: h response_outcome_def)
  have g: "getOne down_platform demo_options (unit demo_options)
      ((step (step ready_state))\<lparr>sent := sent (step ready_state) @ [?req]\<rparr>) =
      (Some ''h2'', ((step (step ready_state))\<lparr>sent := sent (step ready_state) @ [?req]\<rparr>)
         \<lparr>serverListCache := [(''CURRENT_UNIT'', Some \<lparr>hosts = [''h1'', ''h2'', ''h3''], index = 2\<rparr>)]\<rparr>)"
    unfolding demo_unit by (rule pool_getOne) (simp add: step_def ready_state_fields)
  have "thrown_name (fst (send_request down_platform demo_options ''/config.co'' ?ro
      (decimal (now down_platform (tick ready_state))) (step ready_state))) = Some ''ConnectionTimeoutError''"
    unfolding send_request_thrown [OF o g]
    by (simp add: truthy_str_def thrown_name_def tag_request_props new_Error_def)
  then show ?thesis
    by (simp add: env_request_sends [OF e] h)
qed

section \<open>An empty snapshot is no snapshot\<close>

text \<open>
  C10.  \<open>save\<close> writes the empty text for \<open>null\<close> and for the empty text.  Both
  callers of \<open>get\<close> take the empty text for no snapshot: \<open>getConfig\<close> throws the
  error of \<open>_request\<close> on, and \<open>_fetchServerList\<close> keeps the hosts it had.  So
  after a \<open>getConfig\<close> that stored a \<open>null\<close> or empty body, a \<open>getConfig\<close>
  of the same key whose \<open>_request\<close> throws, the file being as the first call left
  it, throws that error on.
\<close>

theorem snapshot_empty_is_no_cache:
  "(fs_error p (tick s) = None \<longrightarrow> \<not> truthy_str v \<longrightarrow>
      files (Snapshot_save p opts key v s) (getSnapshotFile p opts key) = Some [])
   \<and> (env_request p opts ''/config.co'' (getConfig_options opts d g) s = (Inl err, s1) \<longrightarrow>
        files s1 (getSnapshotFile p opts (getSnapshotKey p opts d g)) = Some [] \<longrightarrow>
          fst (getConfig p opts d g s) = Inl err)
   \<and> (files s (getSnapshotFile p opts (mgr_formatKey p u)) = Some [] \<longrightarrow>
          fst (fetch_catch p opts u hs err s) = hs)
   \<and> (env_request p opts ''/config.co'' (getConfig_options opts d g) s = (Inr v, s1) \<longrightarrow>
        \<not> truthy_str v \<longrightarrow> fs_error p (tick s1) = None \<longrightarrow>
        env_request p opts ''/config.co'' (getConfig_options opts d g) t = (Inl err, t1) \<longrightarrow>
        files t1 (getSnapshotFile p opts (getSnapshotKey p opts d g)) =
          files (snd (getConfig p opts d g s)) (getSnapshotFile p opts (getSnapshotKey p opts d g)) \<longrightarrow>
          fst (getConfig p opts d g t) = Inl err)"
proof -
  let ?file = "getSnapshotFile p opts (getSnapshotKey p opts d g)"
  have a: "files (Snapshot_save p opts key v s) (getSnapshotFile p opts key) = Some []"
    if "fs_error p (tick s) = None" "\<not> truthy_str v" for s key v
    using that by (simp add: Snapshot_save_files)
  have b: "fst (getConfig p opts d g s) = Inl err"
    if "env_request p opts ''/config.co'' (getConfig_options opts d g) s = (Inl err, s1)"
      "files s1 ?file = Some []" for s s1 err
  proof -
    have "\<not> truthy_str (fst (Snapshot_get p opts (getSnapshotKey p opts d g) s1))"
      using that(2) by (simp add: Snapshot_get_value truthy_str_def)
    then show ?thesis
      using that(1) by (simp add: getConfig_def split_beta Let_def)
  qed
  have c: "fst (fetch_catch p opts u hs err s) = hs"
    if "files s (getSnapshotFile p opts (mgr_formatKey p u)) = Some []"
  proof -
    have "\<not> truthy_str (fst (Snapshot_get p opts (mgr_formatKey p u) (s\<lparr>mgrEvents := mgrEvents s @ [err]\<rparr>)))"
      using that by (simp add: Snapshot_get_value truthy_str_def)
    then show ?thesis
      by (simp add: fetch_catch_def split_beta Let_def)
  qed
  have d: "fst (getConfig p opts d g t) = Inl err"
    if s: "env_request p opts ''/config.co'' (getConfig_options opts d g) s = (Inr v, s1)"
      and v: "\<not> truthy_str v" and w: "fs_error p (tick s1) = None"
      and t: "env_request p opts ''/config.co'' (getConfig_options opts d g) t = (Inl err, t1)"
      and same: "files t1 ?file = files (snd (getConfig p opts d g s)) ?file"
  proof -
    have "getConfig p opts d g s = (Inr v, Snapshot_save p opts (getSnapshotKey p opts d g) v s1)"
      using s by (simp add: getConfig_def)
    then have "files (snd (getConfig p opts d g s)) ?file = Some []"
      using a [OF w v] by simp
    with same have "files t1 ?file = Some []" by simp
    with t show ?thesis by (rule b)
  qed
  show ?thesis using a b c d by blast
qed

theorem snapshot_empty_is_no_cache_witness:
  "fst (getConfig flaky_platform demo_options ''d'' ''g'' ready_state) = Inr None
   \<and> files (snd (getConfig flaky_platform demo_options ''d'' ''g'' ready_state)) demo_file = Some []
   \<and> thrown_name (fst (getConfig flaky_platform demo_options ''d'' ''g''
         (snd (getConfig flaky_platform demo_options ''d'' ''g'' ready_state))))
       = Some ''ConnectionTimeoutError''"
proof -
  let ?ro = "getConfig_options demo_options ''d'' ''g''"
  let ?key = "getSnapshotKey flaky_platform demo_options ''d'' ''g''"
  let ?req = "build_request flaky_platform demo_options ''/config.co'' ?ro
      (decimal (now flaky_platform (tick ready_state))) (Some ''h1'')"
  let ?s1 = "(step (step ready_state))\<lparr>sent := sent ready_state @ [?req]\<rparr>"
  let ?sA = "snd (getConfig flaky_platform demo_options ''d'' ''g'' ready_state)"
  have f: "fs_error flaky_platform t = None" for t
    by (simp add: flaky_platform_def demo_platform_def)
  have o: "response_outcome (http flaky_platform (Suc (tick ready_state)) ?req) = Inr None"
    by (simp add: flaky_platform_def ready_state_fields response_outcome_def HTTP_OK_def
        HTTP_NOT_FOUND_def)
  have r: "env_request flaky_platform demo_options ''/config.co'' ?ro ready_state = (Inr None, ?s1)"
    using pool_env_request_answer [OF ready_state_fields(1) _ o] by simp
  then have g: "getConfig flaky_platform demo_options ''d'' ''g'' ready_state =
      (Inr None, Snapshot_save flaky_platform demo_options ?key None ?s1)"
    by (simp add: getConfig_def)
  have sA: "currentServer ?sA = Some ''h1''" "tick ?sA = 3"
    "serverListCache ?sA = [(''CURRENT_UNIT'', Some \<lparr>hosts = [''h1'', ''h2'', ''h3''], index = 1\<rparr>)]"
    by (simp_all add: g Snapshot_save_def f step_def Let_def ready_state_fields)
  have th: "http flaky_platform (Suc (tick ?sA)) q = Throws (new_Error ''ConnectionTimeoutError'')" for q
    unfolding sA(2) by (simp add: flaky_platform_def)
  obtain err t1 where t: "env_request flaky_platform demo_options ''/config.co'' ?ro ?sA = (Inl err, t1)"
      "err_name err = ''ConnectionTimeoutError''" "files t1 = files ?sA"
    using pool_env_request_thrown [OF sA(1) _ sA(3) th, of "''/config.co''" ?ro]
    by (auto simp: new_Error_def)
  note inst = snapshot_empty_is_no_cache [where p = flaky_platform and opts = demo_options
      and d = "''d''" and g = "''g''" and s = ready_state and ?s1.0 = ?s1 and v = None
      and t = ?sA and ?t1.0 = t1 and err = err]
  have fl: "files ?sA demo_file = Some []"
    using g by (simp add: Snapshot_save_files f truthy_str_def demo_file_def other_platform_files)
  have "fst (getConfig flaky_platform demo_options ''d'' ''g'' ?sA) = Inl err"
    using inst r t f by (simp add: truthy_str_def step_def)
  then show ?thesis
    using g fl t(2) by (simp add: thrown_name_def)
qed

section \<open>Unsubscribing\<close>

text \<open>
  C9, as the code has it.  When \<open>unSubscribe\<close> leaves the key without listener,
  the subscription is removed from the polling set (and \<open>unSubscribe\<close> without a
  listener always does).  While a key has no subscription, the results of a sync are
  discarded for it, whether they come from a \<open>_syncConfigs\<close> whose fetches were in
  flight or from the response of a probe: no emission is queued, no subscription
  appears, and the listeners stay as they are.  An \<open>emit(key, content)\<close> that runs
  while the key has no listener calls nobody.
\<close>

theorem unSubscribe_last_listener:
  "(listeners (unSubscribe opts info l s) (formatKey opts info) = [] \<longrightarrow>
      map_get (subscriptions (unSubscribe opts info l s)) (formatKey opts info) = None)
   \<and> listeners (unSubscribe opts info None s) (formatKey opts info) = []
   \<and> (map_get (subscriptions t) key = None \<longrightarrow>
        map_get (subscriptions (sync_results p opts list results t)) key = None
        \<and> emissions key (immediates (sync_results p opts list results t)) = emissions key (immediates t)
        \<and> listeners (sync_results p opts list results t) = listeners t
        \<and> map_get (subscriptions (syncConfigs p opts list t)) key = None
        \<and> emissions key (immediates (syncConfigs p opts list t)) = emissions key (immediates t)
        \<and> listeners (syncConfigs p opts list t) = listeners t
        \<and> map_get (subscriptions (snd (checkServerConfigInfo p opts t))) key = None
        \<and> emissions key (immediates (snd (checkServerConfigInfo p opts t))) = emissions key (immediates t)
        \<and> listeners (snd (checkServerConfigInfo p opts t)) = listeners t)
   \<and> (listeners t key = [] \<longrightarrow> delivered (run_task (EmitContent key c) t) = delivered t)"
proof -
  have a: "map_get (subscriptions (unSubscribe opts info l s)) (formatKey opts info) = None"
    if "listeners (unSubscribe opts info l s) (formatKey opts info) = []"
    using that
    by (cases l) (auto simp: unSubscribe_def Let_def map_get_map_delete split: if_splits)
  have b: "listeners (unSubscribe opts info None s) (formatKey opts info) = []"
    by (simp add: unSubscribe_def Let_def)
  have d: "delivered (run_task (EmitContent key c) t) = delivered t" if "listeners t key = []"
    using that by simp
  show ?thesis
    using a b d sync_results_absent [of t key p opts list results]
      syncConfigs_absent [of t key p opts list] checkServerConfigInfo_absent [of t key p opts]
    by blast
qed

theorem unSubscribe_last_listener_witness:
  "map_get (subscriptions (unSubscribe demo_options (''d'', ''g'') (Some 1) synced_state))
       ''d@g@CURRENT_UNIT'' = None
   \<and> emissions ''d@g@CURRENT_UNIT'' (immediates (sync_results demo_platform demo_options
       [(''d'', ''g'')] [Inr (Some ''v2'')]
       (unSubscribe demo_options (''d'', ''g'') (Some 1) synced_state))) = []
   \<and> delivered (run_task (EmitContent ''d@g@CURRENT_UNIT'' (Some ''v2''))
       (unSubscribe demo_options (''d'', ''g'') (Some 1) synced_state)) = [(1, Some ''v1'')]"
proof -
  let ?U = "unSubscribe demo_options (''d'', ''g'') (Some 1) synced_state"
  have l: "listeners ?U ''d@g@CURRENT_UNIT'' = []"
    by (simp add: unSubscribe_def demo_key synced_state_fields remove_last_def Let_def)
  have i: "immediates ?U = []" "delivered ?U = [(1, Some ''v1'')]"
    by (simp_all add: unSubscribe_def demo_key synced_state_fields remove_last_def Let_def)
  note u = unSubscribe_last_listener [of demo_options "(''d'', ''g'')" "Some 1" synced_state
      ?U "''d@g@CURRENT_UNIT''" demo_platform "[(''d'', ''g'')]" "[Inr (Some ''v2'')]" "Some ''v2''"]
  have a: "map_get (subscriptions ?U) ''d@g@CURRENT_UNIT'' = None"
    using u l by (simp only: demo_key simp_thms)
  show ?thesis
    using u a l by (simp only: demo_key i simp_thms emissions.simps) 
qed

text \<open>
  The claim as stated, that no content reaches any listener after the last one is
  removed, fails for the call \<open>subscribe\<close> schedules under \<open>process.nextTick\<close>:
  a second listener subscribes to a key that has its content, all listeners are removed
  before the next tick, and the callback still hands the content to that listener.
\<close>

theorem unSubscribe_last_listener_counterexample:
  "listeners (unSubscribe demo_options (''d'', ''g'') None
       (subscribe demo_options (''d'', ''g'') 2 synced_state)) ''d@g@CURRENT_UNIT'' = []
   \<and> map_get (subscriptions (unSubscribe demo_options (''d'', ''g'') None
       (subscribe demo_options (''d'', ''g'') 2 synced_state))) ''d@g@CURRENT_UNIT'' = None
   \<and> delivered (unSubscribe demo_options (''d'', ''g'') None
       (subscribe demo_options (''d'', ''g'') 2 synced_state)) = [(1, Some ''v1'')]
   \<and> delivered (run_deferred (unSubscribe demo_options (''d'', ''g'') None
       (subscribe demo_options (''d'', ''g'') 2 synced_state))) = [(1, Some ''v1''), (2, Some ''v1'')]"
  by (simp add: unSubscribe_def subscribe_def run_deferred_def demo_key synced_state_fields Let_def)

end
